theory Spec2Isabelle
  imports Main "HOL-Library.Sublist" "HOL-Library.Multiset" "HOL-Library.AList"
    "HOL-Library.Monad_Syntax"
begin

section \<open>Data formats (dataFormat.go)\<close>

text \<open>
  \<^verbatim>\<open>type DataFormat int\<close> with the constants numbered by \<^verbatim>\<open>iota\<close>. The type is an
  integer, so values outside the six constants exist; \<^verbatim>\<open>String\<close> has a branch for them.
\<close>

type_synonym DataFormat = int

definition UnknownDataFormat :: DataFormat where "UnknownDataFormat = 0"
definition CsvDataFormat :: DataFormat where "CsvDataFormat = 1"
definition JsonDataFormat :: DataFormat where "JsonDataFormat = 2"
definition JsonArrayDataFormat :: DataFormat where "JsonArrayDataFormat = 3"
definition XmlDataFormat :: DataFormat where "XmlDataFormat = 4"
definition XlsDataFormat :: DataFormat where "XlsDataFormat = 5"

lemmas DataFormat_defs =
  UnknownDataFormat_def CsvDataFormat_def JsonDataFormat_def
  JsonArrayDataFormat_def XmlDataFormat_def XlsDataFormat_def

definition DataFormat_names :: "(DataFormat \<times> string) list" where
  "DataFormat_names =
     [(UnknownDataFormat, ''''),
      (CsvDataFormat, ''csv''),
      (JsonDataFormat, ''json''),
      (JsonArrayDataFormat, ''jsona''),
      (XmlDataFormat, ''xml''),
      (XlsDataFormat, ''xls'')]"

text \<open>\<^verbatim>\<open>func (f DataFormat) String() string\<close>: a map lookup, \<^verbatim>\<open>""\<close> when the key is absent.\<close>

definition DataFormat_String :: "DataFormat \<Rightarrow> string" where
  "DataFormat_String f =
     (case map_of DataFormat_names f of
        None \<Rightarrow> ''''
      | Some s \<Rightarrow> s)"

text \<open>
  The errors of the modelled functions. Go builds them with \<^verbatim>\<open>fmt.Errorf\<close>; a
  constructor stands for one message format, its argument for the text put into it.
\<close>

datatype error =
    InvalidDataFormat string
  | MarshalerError
  | UnmarshalStructureError
  | FormatConfigError
  | ErrGettingFileBytes string
  | ErrUnmarshalingDataset string
  | ErrEmptyDataset
  | ErrNewAdder
  | ErrMarshaling string
  | ErrClose
  | ErrResourceRequiresPath string

definition DataFormat_parse_table :: "(string \<times> DataFormat) list" where
  "DataFormat_parse_table =
     [('''', UnknownDataFormat),
      (''.csv'', CsvDataFormat),
      (''csv'', CsvDataFormat),
      (''.json'', JsonDataFormat),
      (''json'', JsonDataFormat),
      (''.jsona'', JsonArrayDataFormat),
      (''jsona'', JsonArrayDataFormat),
      (''.xml'', XmlDataFormat),
      (''xml'', XmlDataFormat),
      (''.xls'', XlsDataFormat),
      (''xls'', XlsDataFormat)]"

text \<open>\<^verbatim>\<open>func ParseDataFormatString(s string) (df DataFormat, err error)\<close>.\<close>

definition ParseDataFormatString :: "string \<Rightarrow> error + DataFormat" where
  "ParseDataFormatString s =
     (case map_of DataFormat_parse_table s of
        None \<Rightarrow> Inl (InvalidDataFormat s)
      | Some df \<Rightarrow> Inr df)"

definition defined_DataFormats :: "DataFormat list" where
  "defined_DataFormats =
     [UnknownDataFormat, CsvDataFormat, JsonDataFormat,
      JsonArrayDataFormat, XmlDataFormat, XlsDataFormat]"

section \<open>JSON documents\<close>

text \<open>
  The encoding/json library is taken at the level of JSON values: \<^verbatim>\<open>json.Marshal\<close>
  produces a value of this type (or fails), \<^verbatim>\<open>json.Unmarshal\<close> consumes one. An object
  keeps its members in a list; numbers are the integers, all that the fields modelled
  here hold.
\<close>

datatype json =
    JNull
  | JBool bool
  | JNum int
  | JStr string
  | JArr "json list"
  | JObj "(string \<times> json) list"

text \<open>
  A Go string is any sequence of bytes; \<^verbatim>\<open>json.Marshal\<close> writes it as a JSON string in
  which every byte that does not begin a well-formed UTF-8 sequence is replaced by the
  replacement character U+FFFD (the bytes EF BF BD). \<open>rune_size\<close> is the width that
  \<^verbatim>\<open>utf8.DecodeRuneInString\<close> finds at the head of a string, after the table of the
  first byte and its range for the second byte, and 0 where it reports an invalid byte.
\<close>

definition in_range :: "nat \<Rightarrow> nat \<Rightarrow> char \<Rightarrow> bool" where
  "in_range lo hi c \<longleftrightarrow> lo \<le> of_char c \<and> (of_char c :: nat) \<le> hi"

definition rune_size :: "string \<Rightarrow> nat" where
  "rune_size s =
     (case s of
        [] \<Rightarrow> 0
      | c # cs \<Rightarrow>
          (let b = (of_char c :: nat) in
           if b < 0x80 then 1
           else if 0xC2 \<le> b \<and> b \<le> 0xDF then
             (case cs of
                c1 # r1 \<Rightarrow> if in_range 0x80 0xBF c1 then 2 else 0
              | _ \<Rightarrow> 0)
           else if 0xE0 \<le> b \<and> b \<le> 0xEF then
             (case cs of
                c1 # c2 # r2 \<Rightarrow>
                  if in_range (if b = 0xE0 then 0xA0 else 0x80) (if b = 0xED then 0x9F else 0xBF) c1
                     \<and> in_range 0x80 0xBF c2
                  then 3 else 0
              | _ \<Rightarrow> 0)
           else if 0xF0 \<le> b \<and> b \<le> 0xF4 then
             (case cs of
                c1 # c2 # c3 # r3 \<Rightarrow>
                  if in_range (if b = 0xF0 then 0x90 else 0x80) (if b = 0xF4 then 0x8F else 0xBF) c1
                     \<and> in_range 0x80 0xBF c2 \<and> in_range 0x80 0xBF c3
                  then 4 else 0
              | _ \<Rightarrow> 0)
           else 0))"

definition RuneError_bytes :: string where
  "RuneError_bytes = [CHR 0xEF, CHR 0xBF, CHR 0xBD]"

text \<open>
  The string as \<^verbatim>\<open>json.Marshal\<close> writes it and \<^verbatim>\<open>json.Unmarshal\<close> reads it back; the
  first argument counts the bytes of the current sequence still to be copied.
\<close>

fun replace_invalid :: "nat \<Rightarrow> string \<Rightarrow> string" where
  "replace_invalid k [] = []"
| "replace_invalid k (c # cs) =
     (if 0 < k then c # replace_invalid (k - 1) cs
      else (case rune_size (c # cs) of
              0 \<Rightarrow> RuneError_bytes @ replace_invalid 0 cs
            | Suc n \<Rightarrow> c # replace_invalid n cs))"

definition json_Marshal_string :: "string \<Rightarrow> json" where
  "json_Marshal_string s = JStr (replace_invalid 0 s)"

text \<open>\<^verbatim>\<open>utf8.ValidString\<close>: no byte of the string is an invalid one.\<close>

fun valid_from :: "nat \<Rightarrow> string \<Rightarrow> bool" where
  "valid_from k [] = True"
| "valid_from k (c # cs) =
     (if 0 < k then valid_from (k - 1) cs
      else (case rune_size (c # cs) of
              0 \<Rightarrow> False
            | Suc n \<Rightarrow> valid_from n cs))"

definition utf8_ValidString :: "string \<Rightarrow> bool" where
  "utf8_ValidString s = valid_from 0 s"

text \<open>
  \<^verbatim>\<open>json.Unmarshal(data, &str)\<close> into a Go string: a JSON string is stored, \<^verbatim>\<open>null\<close>
  leaves the variable at its zero value, anything else is an error.
\<close>

fun json_Unmarshal_string :: "json \<Rightarrow> string option" where
  "json_Unmarshal_string (JStr s) = Some s"
| "json_Unmarshal_string JNull = Some ''''"
| "json_Unmarshal_string _ = None"

fun json_Unmarshal_int :: "json \<Rightarrow> int option" where
  "json_Unmarshal_int (JNum n) = Some n"
| "json_Unmarshal_int JNull = Some 0"
| "json_Unmarshal_int _ = None"

text \<open>Into a \<^verbatim>\<open>map[string]interface{}\<close>: \<^verbatim>\<open>null\<close> leaves the map nil.\<close>

fun json_Unmarshal_map :: "json \<Rightarrow> (string \<times> json) list option option" where
  "json_Unmarshal_map (JObj kvs) = Some (Some kvs)"
| "json_Unmarshal_map JNull = Some None"
| "json_Unmarshal_map _ = None"

text \<open>
  A struct field read from an object: an absent member leaves the zero value. Member
  names are compared as written, where encoding/json also accepts another letter case.
\<close>

definition member :: "(string \<times> json) list \<Rightarrow> string \<Rightarrow> (json \<Rightarrow> 'a option) \<Rightarrow> 'a \<Rightarrow> 'a option" where
  "member kvs name dec zero =
     (case map_of kvs name of
        None \<Rightarrow> Some zero
      | Some j \<Rightarrow> dec j)"

text \<open>A struct field written with \<^verbatim>\<open>omitempty\<close>: left out when it holds its zero value.\<close>

definition omitempty :: "string \<Rightarrow> bool \<Rightarrow> json \<Rightarrow> (string \<times> json) list" where
  "omitempty name is_zero j = (if is_zero then [] else [(name, j)])"

text \<open>
  \<^verbatim>\<open>func (f DataFormat) MarshalJSON() ([]byte, error)\<close>: for the unknown format it
  returns \<^verbatim>\<open>nil, nil\<close>, no bytes at all (\<open>None\<close>), otherwise the quoted name.
\<close>

definition DataFormat_MarshalJSON :: "DataFormat \<Rightarrow> json option" where
  "DataFormat_MarshalJSON f =
     (if f = UnknownDataFormat then None else Some (JStr (DataFormat_String f)))"

text \<open>\<^verbatim>\<open>func (f *DataFormat) UnmarshalJSON(data []byte) error\<close>.\<close>

definition DataFormat_UnmarshalJSON :: "json \<Rightarrow> DataFormat option" where
  "DataFormat_UnmarshalJSON data =
     (case json_Unmarshal_string data of
        None \<Rightarrow> None
      | Some s \<Rightarrow> (case ParseDataFormatString s of Inl e \<Rightarrow> None | Inr df \<Rightarrow> Some df))"

section \<open>Structure (structure.go)\<close>

text \<open>
  \<^verbatim>\<open>datastore.Key\<close> is held by its string (\<^verbatim>\<open>Key.String()\<close>); the zero key is the
  empty string, and \<^verbatim>\<open>Key.MarshalJSON\<close> writes that string with \<^verbatim>\<open>json.Marshal\<close>.
\<close>

type_synonym Key = string

definition Key_MarshalJSON :: "Key \<Rightarrow> json" where
  "Key_MarshalJSON k = json_Marshal_string k"

text \<open>
  What structure.go and the transform file use and do not define: the key constructor
  of the datastore package, the kind tags and the JSON coding of the type \<^verbatim>\<open>Kind\<close>
  (a string type: the code compares a kind with \<^verbatim>\<open>""\<close>), and the types
  \<^verbatim>\<open>compression.Type\<close> (\<open>'c\<close>), \<^verbatim>\<open>FormatConfig\<close> (\<open>'fc\<close>) and
  \<^verbatim>\<open>jsonschema.RootSchema\<close> (\<open>'sch\<close>) with their JSON coding. \<^verbatim>\<open>compression.None\<close> is
  taken to be the zero value of its type. \<open>FormatConfig_Map\<close> is the map of a format
  configuration as \<^verbatim>\<open>json.Marshal\<close> writes it. In the result of
  \<^verbatim>\<open>ParseFormatConfigMap\<close> the outer \<open>None\<close> is its error and the inner one a nil
  \<^verbatim>\<open>FormatConfig\<close>.
\<close>

record ('c, 'fc, 'sch) externals =
  NewKey :: "string \<Rightarrow> Key"
  KindStructure :: string
  KindTransform :: string
  Kind_MarshalJSON :: "string \<Rightarrow> json"
  Kind_UnmarshalJSON :: "json \<Rightarrow> string option"
  compression_None :: 'c
  compression_MarshalJSON :: "'c \<Rightarrow> json"
  compression_UnmarshalJSON :: "json \<Rightarrow> 'c option"
  FormatConfig_Map :: "'fc \<Rightarrow> (string \<times> json) list"
  ParseFormatConfigMap :: "DataFormat \<Rightarrow> (string \<times> json) list \<Rightarrow> 'fc option option"
  schema_MarshalJSON :: "'sch \<Rightarrow> json"
  schema_UnmarshalJSON :: "json \<Rightarrow> 'sch option"

record ('c, 'fc, 'sch) Structure =
  st_path :: Key
  st_Checksum :: string
  st_Compression :: 'c
  st_Encoding :: string
  st_Entries :: int
  st_Format :: DataFormat
  st_FormatConfig :: "'fc option"
  st_Kind :: string
  st_Length :: int
  st_Schema :: "'sch option"

text \<open>The zero value \<^verbatim>\<open>Structure{}\<close>.\<close>

definition Structure_zero :: "('c, 'fc, 'sch) externals \<Rightarrow> ('c, 'fc, 'sch) Structure" where
  "Structure_zero ext =
     \<lparr>st_path = '''', st_Checksum = '''', st_Compression = compression_None ext,
      st_Encoding = '''', st_Entries = 0, st_Format = UnknownDataFormat,
      st_FormatConfig = None, st_Kind = '''', st_Length = 0, st_Schema = None\<rparr>"

definition Structure_Path :: "('c, 'fc, 'sch) Structure \<Rightarrow> Key" where
  "Structure_Path s = st_path s"

definition NewStructureRef :: "('c, 'fc, 'sch) externals \<Rightarrow> Key \<Rightarrow> ('c, 'fc, 'sch) Structure" where
  "NewStructureRef ext path = (Structure_zero ext)\<lparr>st_Kind := KindStructure ext, st_path := path\<rparr>"

definition Structure_IsEmpty :: "('c, 'fc, 'sch) externals \<Rightarrow> ('c, 'fc, 'sch) Structure \<Rightarrow> bool" where
  "Structure_IsEmpty ext s \<longleftrightarrow>
     st_Checksum s = '''' \<and>
     st_Compression s = compression_None ext \<and>
     st_Encoding s = '''' \<and>
     st_Entries s = 0 \<and>
     st_Format s = UnknownDataFormat \<and>
     st_FormatConfig s = None \<and>
     st_Length s = 0 \<and>
     st_Schema s = None"

text \<open>The private type \<^verbatim>\<open>_structure\<close> that is marshalled into and out of.\<close>

record ('c, 'sch) u_structure =
  u_Checksum :: string
  u_Compression :: 'c
  u_Encoding :: string
  u_Entries :: int
  u_Format :: DataFormat
  u_FormatConfig :: "(string \<times> json) list option"
  u_Kind :: string
  u_Length :: int
  u_Schema :: "'sch option"

text \<open>
  \<^verbatim>\<open>json.Marshal\<close> of a \<^verbatim>\<open>_structure\<close>, member by member as the struct tags say.
  \<^verbatim>\<open>format\<close> and \<^verbatim>\<open>kind\<close> have no \<^verbatim>\<open>omitempty\<close>. The format is written by its own
  \<^verbatim>\<open>MarshalJSON\<close>, and the library rejects a marshaler that returns no JSON text; the
  kind by the coding of its type.
\<close>

definition json_Marshal_u_structure ::
  "('c, 'fc, 'sch) externals \<Rightarrow> ('c, 'sch) u_structure \<Rightarrow> error + json" where
  "json_Marshal_u_structure ext u =
     (case DataFormat_MarshalJSON (u_Format u) of
        None \<Rightarrow> Inl MarshalerError
      | Some fmt \<Rightarrow>
          Inr (JObj
            (omitempty ''checksum'' (u_Checksum u = '''') (json_Marshal_string (u_Checksum u)) @
             omitempty ''compression'' (u_Compression u = compression_None ext)
               (compression_MarshalJSON ext (u_Compression u)) @
             omitempty ''encoding'' (u_Encoding u = '''') (json_Marshal_string (u_Encoding u)) @
             omitempty ''entries'' (u_Entries u = 0) (JNum (u_Entries u)) @
             [(''format'', fmt)] @
             (case u_FormatConfig u of
                None \<Rightarrow> []
              | Some m \<Rightarrow> omitempty ''formatConfig'' (m = []) (JObj m)) @
             [(''kind'', Kind_MarshalJSON ext (u_Kind u))] @
             omitempty ''length'' (u_Length u = 0) (JNum (u_Length u)) @
             (case u_Schema u of
                None \<Rightarrow> []
              | Some sch \<Rightarrow> [(''schema'', schema_MarshalJSON ext sch)]))))"

text \<open>\<^verbatim>\<open>func (s Structure) MarshalJSON() (data []byte, err error)\<close>.\<close>

definition Structure_MarshalJSON ::
  "('c, 'fc, 'sch) externals \<Rightarrow> ('c, 'fc, 'sch) Structure \<Rightarrow> error + json" where
  "Structure_MarshalJSON ext s =
     (if st_path s \<noteq> '''' \<and> st_Encoding s = '''' \<and> st_Schema s = None
      then Inr (Key_MarshalJSON (st_path s))
      else
        (let kind = (if st_Kind s = '''' then KindStructure ext else st_Kind s);
             opt = (case st_FormatConfig s of
                      None \<Rightarrow> None
                    | Some fc \<Rightarrow> Some (FormatConfig_Map ext fc))
         in json_Marshal_u_structure ext
              \<lparr>u_Checksum = st_Checksum s,
               u_Compression = st_Compression s,
               u_Encoding = st_Encoding s,
               u_Entries = st_Entries s,
               u_Format = st_Format s,
               u_FormatConfig = opt,
               u_Kind = kind,
               u_Length = st_Length s,
               u_Schema = st_Schema s\<rparr>))"

text \<open>
  \<^verbatim>\<open>json.Unmarshal(data, _s)\<close> into a zero \<^verbatim>\<open>_structure\<close>: the value must be an object
  (\<^verbatim>\<open>null\<close> never reaches this point, the string attempt takes it); each member is
  decoded at the type of its field, a pointer member that is \<^verbatim>\<open>null\<close> stays nil.
\<close>

definition json_Unmarshal_u_structure ::
  "('c, 'fc, 'sch) externals \<Rightarrow> json \<Rightarrow> ('c, 'sch) u_structure option" where
  "json_Unmarshal_u_structure ext data =
     (case data of
        JObj kvs \<Rightarrow>
          do {
            checksum \<leftarrow> member kvs ''checksum'' json_Unmarshal_string '''';
            compression \<leftarrow> member kvs ''compression'' (compression_UnmarshalJSON ext) (compression_None ext);
            encoding \<leftarrow> member kvs ''encoding'' json_Unmarshal_string '''';
            entries \<leftarrow> member kvs ''entries'' json_Unmarshal_int 0;
            format \<leftarrow> member kvs ''format'' DataFormat_UnmarshalJSON UnknownDataFormat;
            formatConfig \<leftarrow> member kvs ''formatConfig'' json_Unmarshal_map None;
            kind \<leftarrow> member kvs ''kind'' (Kind_UnmarshalJSON ext) '''';
            length \<leftarrow> member kvs ''length'' json_Unmarshal_int 0;
            schema \<leftarrow> member kvs ''schema''
               (\<lambda>j. if j = JNull then Some None else map_option Some (schema_UnmarshalJSON ext j)) None;
            Some \<lparr>u_Checksum = checksum, u_Compression = compression, u_Encoding = encoding,
                  u_Entries = entries, u_Format = format, u_FormatConfig = formatConfig,
                  u_Kind = kind, u_Length = length, u_Schema = schema\<rparr>
          }
      | _ \<Rightarrow> None)"

text \<open>\<^verbatim>\<open>func (s *Structure) UnmarshalJSON(data []byte) (err error)\<close>.\<close>

definition Structure_UnmarshalJSON ::
  "('c, 'fc, 'sch) externals \<Rightarrow> json \<Rightarrow> error + ('c, 'fc, 'sch) Structure" where
  "Structure_UnmarshalJSON ext data =
     (case json_Unmarshal_string data of
        Some str \<Rightarrow> Inr ((Structure_zero ext)\<lparr>st_path := NewKey ext str\<rparr>)
      | None \<Rightarrow>
          (case json_Unmarshal_u_structure ext data of
             None \<Rightarrow> Inl UnmarshalStructureError
           | Some u \<Rightarrow>
               (case (case u_FormatConfig u of
                        None \<Rightarrow> Some None
                      | Some m \<Rightarrow> ParseFormatConfigMap ext (u_Format u) m) of
                  None \<Rightarrow> Inl FormatConfigError
                | Some fmtCfg \<Rightarrow>
                    Inr \<lparr>st_path = '''',
                         st_Checksum = u_Checksum u,
                         st_Compression = u_Compression u,
                         st_Encoding = u_Encoding u,
                         st_Entries = u_Entries u,
                         st_Format = u_Format u,
                         st_FormatConfig = fmtCfg,
                         st_Kind = u_Kind u,
                         st_Length = u_Length u,
                         st_Schema = u_Schema u\<rparr>)))"

text \<open>
  A stand-in for the external parts, for running the functions: keys are taken as they
  are, a kind is coded as a string, compression is a number written as such, a format configuration is its own map
  and a schema its own JSON document.
\<close>

definition plain_externals :: "(int, (string \<times> json) list, json) externals" where
  "plain_externals =
     \<lparr>NewKey = (\<lambda>s. s),
      KindStructure = ''qri:st:0'',
      KindTransform = ''qri:tf:0'',
      Kind_MarshalJSON = json_Marshal_string,
      Kind_UnmarshalJSON = json_Unmarshal_string,
      compression_None = 0,
      compression_MarshalJSON = JNum,
      compression_UnmarshalJSON = json_Unmarshal_int,
      FormatConfig_Map = (\<lambda>m. m),
      ParseFormatConfigMap = (\<lambda>f m. Some (Some m)),
      schema_MarshalJSON = (\<lambda>j. j),
      schema_UnmarshalJSON = Some\<rparr>"

section \<open>Transform\<close>

text \<open>
  The transform file with the kind tag \<^verbatim>\<open>Qri\<close>. The datasets a transform refers to
  are left abstract (\<open>'r\<close>); a \<^verbatim>\<open>map\<close> is \<open>None\<close> when nil and its list of entries
  otherwise, a pointer is \<open>None\<close> when nil.
\<close>

record ('r, 'c, 'fc, 'sch) Transform =
  tf_path :: Key
  tf_Qri :: string
  tf_Syntax :: string
  tf_AppVersion :: string
  tf_Data :: string
  tf_Structure :: "('c, 'fc, 'sch) Structure option"
  tf_Config :: "(string \<times> json) list option"
  tf_Resources :: "(string \<times> 'r) list option"

text \<open>The zero value \<^verbatim>\<open>Transform{}\<close>.\<close>

definition Transform_zero :: "('r, 'c, 'fc, 'sch) Transform" where
  "Transform_zero =
     \<lparr>tf_path = '''', tf_Qri = '''', tf_Syntax = '''', tf_AppVersion = '''', tf_Data = '''',
      tf_Structure = None, tf_Config = None, tf_Resources = None\<rparr>"

definition NewTransformRef :: "Key \<Rightarrow> ('r, 'c, 'fc, 'sch) Transform" where
  "NewTransformRef path = Transform_zero\<lparr>tf_path := path\<rparr>"

definition Transform_Path :: "('r, 'c, 'fc, 'sch) Transform \<Rightarrow> Key" where
  "Transform_Path q = tf_path q"

text \<open>\<^verbatim>\<open>func (q *Transform) IsEmpty() bool\<close>.\<close>

definition Transform_IsEmpty :: "('r, 'c, 'fc, 'sch) Transform \<Rightarrow> bool" where
  "Transform_IsEmpty q \<longleftrightarrow>
     tf_Data q = '''' \<and>
     tf_Resources q = None \<and>
     tf_Syntax q = '''' \<and>
     tf_AppVersion q = '''' \<and>
     tf_Structure q = None \<and>
     tf_Config q = None"

text \<open>
  The same method in the older revision kept in transform.go, whose struct has no kind
  tag: \<^verbatim>\<open>return q.Data == "" && q.Resources == nil\<close>.
\<close>

definition Transform_IsEmpty_v0 :: "('r, 'c, 'fc, 'sch) Transform \<Rightarrow> bool" where
  "Transform_IsEmpty_v0 q \<longleftrightarrow> tf_Data q = '''' \<and> tf_Resources q = None"

text \<open>The private type \<^verbatim>\<open>_transform\<close>.\<close>

record ('r, 'c, 'fc, 'sch) u_transform =
  ut_AppVersion :: string
  ut_Config :: "(string \<times> json) list option"
  ut_Data :: string
  ut_Qri :: string
  ut_Resources :: "(string \<times> 'r) list option"
  ut_Structure :: "('c, 'fc, 'sch) Structure option"
  ut_Syntax :: string

text \<open>The values of a map, each written by its encoder; the first failure is the result.\<close>

fun marshal_values :: "('a \<Rightarrow> error + json) \<Rightarrow> (string \<times> 'a) list \<Rightarrow> error + (string \<times> json) list" where
  "marshal_values enc [] = Inr []"
| "marshal_values enc ((k, v) # kvs) =
     (case enc v of
        Inl e \<Rightarrow> Inl e
      | Inr j \<Rightarrow>
          (case marshal_values enc kvs of
             Inl e \<Rightarrow> Inl e
           | Inr js \<Rightarrow> Inr ((k, j) # js)))"

text \<open>
  \<^verbatim>\<open>json.Marshal\<close> of a \<^verbatim>\<open>_transform\<close>; every member has \<^verbatim>\<open>omitempty\<close>. The structure
  is written by \<open>Structure_MarshalJSON\<close>, a referenced dataset by the encoder \<open>dsenc\<close>
  of the dataset type.
\<close>

definition json_Marshal_u_transform ::
  "('c, 'fc, 'sch) externals \<Rightarrow> ('r \<Rightarrow> error + json) \<Rightarrow> ('r, 'c, 'fc, 'sch) u_transform
   \<Rightarrow> error + json" where
  "json_Marshal_u_transform ext dsenc u =
     (case (case ut_Resources u of
              None \<Rightarrow> Inr []
            | Some rs \<Rightarrow>
                (case marshal_values dsenc rs of
                   Inl e \<Rightarrow> Inl e
                 | Inr js \<Rightarrow> Inr (omitempty ''resources'' (js = []) (JObj js)))) of
        Inl e \<Rightarrow> Inl e
      | Inr resources \<Rightarrow>
          (case (case ut_Structure u of
                   None \<Rightarrow> Inr []
                 | Some st \<Rightarrow>
                     (case Structure_MarshalJSON ext st of
                        Inl e \<Rightarrow> Inl e
                      | Inr j \<Rightarrow> Inr [(''structure'', j)])) of
             Inl e \<Rightarrow> Inl e
           | Inr structure \<Rightarrow>
               Inr (JObj
                 (omitempty ''appVersion'' (ut_AppVersion u = '''') (json_Marshal_string (ut_AppVersion u)) @
                  (case ut_Config u of
                     None \<Rightarrow> []
                   | Some m \<Rightarrow> omitempty ''config'' (m = []) (JObj m)) @
                  omitempty ''data'' (ut_Data u = '''') (json_Marshal_string (ut_Data u)) @
                  omitempty ''qri'' (ut_Qri u = '''') (Kind_MarshalJSON ext (ut_Qri u)) @
                  resources @
                  structure @
                  omitempty ''syntax'' (ut_Syntax u = '''') (json_Marshal_string (ut_Syntax u))))))"

text \<open>\<^verbatim>\<open>func (q Transform) MarshalJSONObject() ([]byte, error)\<close>.\<close>

definition Transform_MarshalJSONObject ::
  "('c, 'fc, 'sch) externals \<Rightarrow> ('r \<Rightarrow> error + json) \<Rightarrow> ('r, 'c, 'fc, 'sch) Transform
   \<Rightarrow> error + json" where
  "Transform_MarshalJSONObject ext dsenc q =
     (let kind = (if tf_Qri q = '''' then KindTransform ext else tf_Qri q)
      in json_Marshal_u_transform ext dsenc
           \<lparr>ut_AppVersion = tf_AppVersion q,
            ut_Config = tf_Config q,
            ut_Data = tf_Data q,
            ut_Qri = kind,
            ut_Resources = tf_Resources q,
            ut_Structure = tf_Structure q,
            ut_Syntax = tf_Syntax q\<rparr>)"

text \<open>\<^verbatim>\<open>func (q Transform) MarshalJSON() ([]byte, error)\<close>.\<close>

definition Transform_MarshalJSON ::
  "('c, 'fc, 'sch) externals \<Rightarrow> ('r \<Rightarrow> error + json) \<Rightarrow> ('r, 'c, 'fc, 'sch) Transform
   \<Rightarrow> error + json" where
  "Transform_MarshalJSON ext dsenc q =
     (if tf_path q \<noteq> '''' \<and> Transform_IsEmpty q
      then Inr (Key_MarshalJSON (tf_path q))
      else Transform_MarshalJSONObject ext dsenc q)"

section \<open>Commit title and message (dsfs/dataset.go)\<close>

text \<open>
  Go strings are byte sequences: \<^verbatim>\<open>len\<close> and the slices count bytes.
  \<^verbatim>\<open>strings.Index(s, "\n")\<close> and \<^verbatim>\<open>strings.LastIndex(s, " ")\<close> search for a
  one-byte string and return \<open>-1\<close> when it does not occur.
\<close>

definition newline :: char where "newline = CHR 0x0A"

fun Index :: "string \<Rightarrow> char \<Rightarrow> int" where
  "Index [] c = -1"
| "Index (x # xs) c =
     (if x = c then 0
      else (let i = Index xs c in if i < 0 then -1 else i + 1))"

fun LastIndex :: "string \<Rightarrow> char \<Rightarrow> int" where
  "LastIndex [] c = -1"
| "LastIndex (x # xs) c =
     (let i = LastIndex xs c
      in if i \<ge> 0 then i + 1 else if x = c then 0 else -1)"

text \<open>
  \<^verbatim>\<open>func cleanTitleAndMessage(sTitle, sMsg *string, diffDescription string)\<close>, in its
  three steps: choosing the title, the cut for length, the cut at a line break. The
  result is the pair written back through the two pointers.
\<close>

definition choose_title :: "string \<Rightarrow> string \<Rightarrow> string \<Rightarrow> string \<times> string" where
  "choose_title sTitle sMsg diffDescription =
     (if sTitle = '''' \<and> diffDescription \<noteq> '''' then (diffDescription, sMsg)
      else if sTitle = '''' then (sMsg, '''')
      else (sTitle, sMsg))"

definition adjust_length :: "string \<times> string \<Rightarrow> string \<times> string" where
  "adjust_length p =
     (case p of (st, sm) \<Rightarrow>
        if length st > 70 then
          (let lastSpaceIndex = LastIndex (take 67 st) (CHR '' '');
               cutIndex = (if lastSpaceIndex > 0 then lastSpaceIndex + 1 else 66)
           in (take (nat cutIndex) st @ ''...'',
               ''...'' @ drop (nat cutIndex) st @ [newline] @ sm))
        else (st, sm))"

definition adjust_line_breaks :: "string \<times> string \<Rightarrow> string \<times> string" where
  "adjust_line_breaks p =
     (case p of (st, sm) \<Rightarrow>
        (let newlineIndex = Index st newline
         in if newlineIndex > 0 then
              (take (nat newlineIndex) st, drop (nat (newlineIndex + 1)) st @ [newline] @ sm)
            else (st, sm)))"

definition cleanTitleAndMessage :: "string \<Rightarrow> string \<Rightarrow> string \<Rightarrow> string \<times> string" where
  "cleanTitleAndMessage sTitle sMsg diffDescription =
     adjust_line_breaks (adjust_length (choose_title sTitle sMsg diffDescription))"

section \<open>Shape analysis (dsfs/dataset.go)\<close>

text \<open>
  An entry value as the entry reader hands it over (\<^verbatim>\<open>interface{}\<close>): an object
  (\<^verbatim>\<open>map[string]interface{}\<close>, here with its entries in the order the \<^verbatim>\<open>range\<close>
  visits them), an array (\<^verbatim>\<open>[]interface{}\<close>) or anything else.
\<close>

datatype val =
    VObj "(string \<times> val) list"
  | VArr "val list"
  | VScalar string

text \<open>
  \<^verbatim>\<open>func getDepth(x interface{}, depth int) int\<close>. Both container cases increment
  \<^verbatim>\<open>depth\<close> and then run the loop
  \<^verbatim>\<open>for _, el := range v { if d := getDepth(el, depth); d > depth { depth = d } }\<close>
  in which the variable \<^verbatim>\<open>depth\<close> is both the running result and the argument of the
  next call. \<open>getDepth_loop\<close> is that loop.
\<close>

fun getDepth :: "val \<Rightarrow> int \<Rightarrow> int"
  and getDepth_loop :: "val list \<Rightarrow> int \<Rightarrow> int" where
  "getDepth (VObj kvs) depth = getDepth_loop (map snd kvs) (depth + 1)"
| "getDepth (VArr vs) depth = getDepth_loop vs (depth + 1)"
| "getDepth (VScalar s) depth = depth"
| "getDepth_loop [] depth = depth"
| "getDepth_loop (el # els) depth =
     (let d = getDepth el depth
      in getDepth_loop els (if d > depth then d else depth))"

text \<open>
  The loop of \<^verbatim>\<open>setDepthAndEntryCount\<close> over the entries the reader returned before its
  first error: \<^verbatim>\<open>if d := getDepth(ent.Value, 1); d > depth { depth = d }; entries++\<close>.
\<close>

fun entries_loop :: "val list \<Rightarrow> int \<times> int \<Rightarrow> int \<times> int" where
  "entries_loop [] (entries, depth) = (entries, depth)"
| "entries_loop (ent # ents) (entries, depth) =
     (let d = getDepth ent 1
      in entries_loop ents (entries + 1, if d > depth then d else depth))"

datatype shape_error = ErrReadingValues int string

text \<open>
  \<^verbatim>\<open>setDepthAndEntryCount\<close>: the reader is the list of entries it yields and the text of
  the error that ends the stream. The result is the pair written to
  \<^verbatim>\<open>ds.Structure.Entries\<close> and \<^verbatim>\<open>ds.Structure.Depth\<close>.
\<close>

definition setDepthAndEntryCount :: "val list \<Rightarrow> string \<Rightarrow> shape_error + int \<times> int" where
  "setDepthAndEntryCount ents err =
     (let (entries, depth) = entries_loop ents (0, 1)
      in if err \<noteq> ''EOF'' then Inl (ErrReadingValues entries err)
         else Inr (entries, depth))"

text \<open>
  The depth the documentation describes: the deepest value, one level per enclosing
  object or array.
\<close>

fun nesting :: "val \<Rightarrow> int"
  and nesting_max :: "val list \<Rightarrow> int" where
  "nesting (VObj kvs) = 1 + nesting_max (map snd kvs)"
| "nesting (VArr vs) = 1 + nesting_max vs"
| "nesting (VScalar s) = 0"
| "nesting_max [] = 0"
| "nesting_max (v # vs) = max (nesting v) (nesting_max vs)"

text \<open>The number of objects and arrays in a value.\<close>

fun containers :: "val \<Rightarrow> int"
  and containers_sum :: "val list \<Rightarrow> int" where
  "containers (VObj kvs) = 1 + containers_sum (map snd kvs)"
| "containers (VArr vs) = 1 + containers_sum vs"
| "containers (VScalar s) = 0"
| "containers_sum [] = 0"
| "containers_sum (v # vs) = containers v + containers_sum vs"

section \<open>Datasets in the filesystem layer (dsfs/dataset.go)\<close>

text \<open>
  The filesystem layer works on pointers: the caller's \<^verbatim>\<open>*dataset.Dataset\<close>, the copy
  made of it, and the sub-documents both point to. Objects therefore live in a store of
  their own, one table per Go type, and a pointer is an address into the table of its
  type (\<open>None\<close> for nil).
\<close>

type_synonym bytes = string
type_synonym ref = nat

text \<open>
  Modelled from the spec: the Dataset type and the sub-document types the filesystem
  layer is compiled against are not among the sources (the Dataset and Transform that
  are belong to older revisions, without \<^verbatim>\<open>BodyPath\<close>, \<^verbatim>\<open>Script\<close> or \<^verbatim>\<open>ScriptPath\<close>).
  A Dataset has a timestamp, the body address, the address of the previous version and
  the five sub-document slots; every sub-document carries its address. Of a Transform
  the layer reads the resources (each with a \<^verbatim>\<open>Path\<close>), the script blob and the
  script's address, of a Viz the script blob and the script's address; all other
  fields only pass through the encoder and are kept as an open list of named values.
\<close>

record Doc =
  d_path :: Key
  d_fields :: "(string \<times> string) list"

record TransformResource =
  r_Path :: string

record TransformObj =
  t_path :: Key
  t_fields :: "(string \<times> string) list"
  t_Resources :: "(string \<times> TransformResource) list option"
  t_Script :: "bytes option"
  t_ScriptPath :: string

record VizObj =
  v_path :: Key
  v_fields :: "(string \<times> string) list"
  v_Script :: "bytes option"
  v_ScriptPath :: string

record Dataset =
  ds_path :: Key
  ds_Timestamp :: int
  ds_BodyPath :: string
  ds_PreviousPath :: string
  ds_Meta :: "ref option"
  ds_Structure :: "ref option"
  ds_Transform :: "ref option"
  ds_Commit :: "ref option"
  ds_Viz :: "ref option"

record heap =
  h_Dataset :: "ref \<Rightarrow> Dataset option"
  h_Meta :: "ref \<Rightarrow> Doc option"
  h_Structure :: "ref \<Rightarrow> Doc option"
  h_Transform :: "ref \<Rightarrow> TransformObj option"
  h_Commit :: "ref \<Rightarrow> Doc option"
  h_Viz :: "ref \<Rightarrow> VizObj option"
  h_next :: ref

definition empty_heap :: heap where
  "empty_heap =
     \<lparr>h_Dataset = (\<lambda>r. None), h_Meta = (\<lambda>r. None), h_Structure = (\<lambda>r. None),
      h_Transform = (\<lambda>r. None), h_Commit = (\<lambda>r. None), h_Viz = (\<lambda>r. None), h_next = 0\<rparr>"

definition Dataset_zero :: Dataset where
  "Dataset_zero =
     \<lparr>ds_path = '''', ds_Timestamp = 0, ds_BodyPath = '''', ds_PreviousPath = '''',
      ds_Meta = None, ds_Structure = None, ds_Transform = None, ds_Commit = None,
      ds_Viz = None\<rparr>"

text \<open>
  Modelled from the spec: the constructors \<^verbatim>\<open>dataset.NewDatasetRef\<close>,
  \<^verbatim>\<open>NewStructureRef\<close>, \<^verbatim>\<open>NewMetaRef\<close>, \<^verbatim>\<open>NewCommitRef\<close>, \<^verbatim>\<open>NewTransformRef\<close> and
  \<^verbatim>\<open>NewVizRef\<close> for these types are missing; a reference is a value holding only an
  address, no other data.
\<close>

definition dataset_NewDatasetRef :: "Key \<Rightarrow> Dataset" where
  "dataset_NewDatasetRef p = Dataset_zero\<lparr>ds_path := p\<rparr>"

definition dataset_NewDocRef :: "Key \<Rightarrow> Doc" where
  "dataset_NewDocRef p = \<lparr>d_path = p, d_fields = []\<rparr>"

definition dataset_NewTransformRef :: "Key \<Rightarrow> TransformObj" where
  "dataset_NewTransformRef p =
     \<lparr>t_path = p, t_fields = [], t_Resources = None, t_Script = None, t_ScriptPath = ''''\<rparr>"

definition dataset_NewVizRef :: "Key \<Rightarrow> VizObj" where
  "dataset_NewVizRef p = \<lparr>v_path = p, v_fields = [], v_Script = None, v_ScriptPath = ''''\<rparr>"

text \<open>Allocation (\<^verbatim>\<open>&T{...}\<close>): the object goes to the next free address.\<close>

definition new_Dataset :: "Dataset \<Rightarrow> heap \<Rightarrow> ref \<times> heap" where
  "new_Dataset d h =
     (h_next h, h\<lparr>h_Dataset := (h_Dataset h)(h_next h \<mapsto> d), h_next := Suc (h_next h)\<rparr>)"

definition new_Meta :: "Doc \<Rightarrow> heap \<Rightarrow> ref \<times> heap" where
  "new_Meta d h =
     (h_next h, h\<lparr>h_Meta := (h_Meta h)(h_next h \<mapsto> d), h_next := Suc (h_next h)\<rparr>)"

definition new_Structure :: "Doc \<Rightarrow> heap \<Rightarrow> ref \<times> heap" where
  "new_Structure d h =
     (h_next h, h\<lparr>h_Structure := (h_Structure h)(h_next h \<mapsto> d), h_next := Suc (h_next h)\<rparr>)"

definition new_Commit :: "Doc \<Rightarrow> heap \<Rightarrow> ref \<times> heap" where
  "new_Commit d h =
     (h_next h, h\<lparr>h_Commit := (h_Commit h)(h_next h \<mapsto> d), h_next := Suc (h_next h)\<rparr>)"

definition new_Transform :: "TransformObj \<Rightarrow> heap \<Rightarrow> ref \<times> heap" where
  "new_Transform d h =
     (h_next h, h\<lparr>h_Transform := (h_Transform h)(h_next h \<mapsto> d), h_next := Suc (h_next h)\<rparr>)"

definition new_Viz :: "VizObj \<Rightarrow> heap \<Rightarrow> ref \<times> heap" where
  "new_Viz d h =
     (h_next h, h\<lparr>h_Viz := (h_Viz h)(h_next h \<mapsto> d), h_next := Suc (h_next h)\<rparr>)"

subsection \<open>Assign and IsEmpty\<close>

text \<open>
  Modelled from the spec: \<^verbatim>\<open>Assign\<close> of Dataset, Meta, Structure, Commit, Transform and
  Viz in the revision the layer uses is missing. The spec: "left-to-right shallow merge:
  for each non-zero field in each argument (applied in order), overwrite the receiver's
  field; nested sub-documents merge recursively via their own Assign; maps merge
  key-by-key rather than replacing wholesale".
\<close>

fun merge_map :: "(string \<times> 'a) list \<Rightarrow> (string \<times> 'a) list \<Rightarrow> (string \<times> 'a) list" where
  "merge_map m [] = m"
| "merge_map m ((k, v) # kvs) = merge_map (AList.update k v m) kvs"

definition Doc_Assign :: "Doc \<Rightarrow> Doc \<Rightarrow> Doc" where
  "Doc_Assign r a =
     \<lparr>d_path = (if d_path a \<noteq> '''' then d_path a else d_path r),
      d_fields = merge_map (d_fields r) (filter (\<lambda>kv. snd kv \<noteq> '''') (d_fields a))\<rparr>"

definition TransformObj_Assign :: "TransformObj \<Rightarrow> TransformObj \<Rightarrow> TransformObj" where
  "TransformObj_Assign r a =
     \<lparr>t_path = (if t_path a \<noteq> '''' then t_path a else t_path r),
      t_fields = merge_map (t_fields r) (filter (\<lambda>kv. snd kv \<noteq> '''') (t_fields a)),
      t_Resources =
        (case t_Resources a of
           None \<Rightarrow> t_Resources r
         | Some rs \<Rightarrow> Some (merge_map (case t_Resources r of None \<Rightarrow> [] | Some m \<Rightarrow> m) rs)),
      t_Script = (case t_Script a of None \<Rightarrow> t_Script r | Some sc \<Rightarrow> Some sc),
      t_ScriptPath = (if t_ScriptPath a \<noteq> '''' then t_ScriptPath a else t_ScriptPath r)\<rparr>"

definition VizObj_Assign :: "VizObj \<Rightarrow> VizObj \<Rightarrow> VizObj" where
  "VizObj_Assign r a =
     \<lparr>v_path = (if v_path a \<noteq> '''' then v_path a else v_path r),
      v_fields = merge_map (v_fields r) (filter (\<lambda>kv. snd kv \<noteq> '''') (v_fields a)),
      v_Script = (case v_Script a of None \<Rightarrow> v_Script r | Some sc \<Rightarrow> Some sc),
      v_ScriptPath = (if v_ScriptPath a \<noteq> '''' then v_ScriptPath a else v_ScriptPath r)\<rparr>"

text \<open>
  Modelled from the spec: one sub-document slot under the Dataset's \<^verbatim>\<open>Assign\<close>, which is
  missing. The merge is shallow: a slot of the receiver that is nil is overwritten
  with the argument's slot, the pointer itself, so that receiver and argument then share
  the sub-document; a slot that already holds a sub-document merges the argument's
  into it through the sub-document's own \<^verbatim>\<open>Assign\<close>.
\<close>

definition merge_slot ::
  "(ref \<Rightarrow> 'a option) \<Rightarrow> ('a \<Rightarrow> 'a \<Rightarrow> 'a) \<Rightarrow> ref option \<Rightarrow> ref option
   \<Rightarrow> ref option \<times> (ref \<Rightarrow> 'a option)" where
  "merge_slot objs assign rslot aslot =
     (case rslot of
        None \<Rightarrow> (aslot, objs)
      | Some r \<Rightarrow>
          (case aslot of
             None \<Rightarrow> (Some r, objs)
           | Some a \<Rightarrow>
               (case (objs r, objs a) of
                  (Some ro, Some ao) \<Rightarrow> (Some r, objs(r \<mapsto> assign ro ao))
                | _ \<Rightarrow> (Some r, objs))))"

text \<open>
  Modelled from the spec: \<^verbatim>\<open>func (ds *Dataset) Assign(datasets ...*Dataset)\<close>, which is
  missing, for one argument and for the list of them; a nil argument is skipped.
\<close>

definition Dataset_Assign1 :: "ref \<Rightarrow> ref option \<Rightarrow> heap \<Rightarrow> heap" where
  "Dataset_Assign1 r arg h =
     (case arg of
        None \<Rightarrow> h
      | Some a \<Rightarrow>
          (case (h_Dataset h r, h_Dataset h a) of
             (Some rd, Some ad) \<Rightarrow>
               (let (meta, metas) = merge_slot (h_Meta h) Doc_Assign (ds_Meta rd) (ds_Meta ad);
                    (structure, structures) =
                       merge_slot (h_Structure h) Doc_Assign (ds_Structure rd) (ds_Structure ad);
                    (transform, transforms) =
                       merge_slot (h_Transform h) TransformObj_Assign
                         (ds_Transform rd) (ds_Transform ad);
                    (commit, commits) =
                       merge_slot (h_Commit h) Doc_Assign (ds_Commit rd) (ds_Commit ad);
                    (viz, vizs) = merge_slot (h_Viz h) VizObj_Assign (ds_Viz rd) (ds_Viz ad);
                    rd' = \<lparr>ds_path = (if ds_path ad \<noteq> '''' then ds_path ad else ds_path rd),
                           ds_Timestamp =
                             (if ds_Timestamp ad \<noteq> 0 then ds_Timestamp ad else ds_Timestamp rd),
                           ds_BodyPath =
                             (if ds_BodyPath ad \<noteq> '''' then ds_BodyPath ad else ds_BodyPath rd),
                           ds_PreviousPath =
                             (if ds_PreviousPath ad \<noteq> '''' then ds_PreviousPath ad
                              else ds_PreviousPath rd),
                           ds_Meta = meta, ds_Structure = structure, ds_Transform = transform,
                           ds_Commit = commit, ds_Viz = viz\<rparr>
                in h\<lparr>h_Dataset := (h_Dataset h)(r \<mapsto> rd'),
                     h_Meta := metas, h_Structure := structures, h_Transform := transforms,
                     h_Commit := commits, h_Viz := vizs\<rparr>)
           | _ \<Rightarrow> h))"

definition Dataset_Assign :: "ref \<Rightarrow> ref option list \<Rightarrow> heap \<Rightarrow> heap" where
  "Dataset_Assign r args h = fold (Dataset_Assign1 r) args h"

text \<open>
  Modelled from the spec: \<^verbatim>\<open>func (ds *Dataset) IsEmpty() bool\<close>, which is missing: "true
  iff every field except the address is at its zero value".
\<close>

definition Dataset_IsEmpty :: "Dataset \<Rightarrow> bool" where
  "Dataset_IsEmpty d \<longleftrightarrow>
     ds_Timestamp d = 0 \<and> ds_BodyPath d = '''' \<and> ds_PreviousPath d = '''' \<and>
     ds_Meta d = None \<and> ds_Structure d = None \<and> ds_Transform d = None \<and>
     ds_Commit d = None \<and> ds_Viz d = None"

subsection \<open>LoadDatasetRefs\<close>

text \<open>
  \<^verbatim>\<open>func LoadDatasetRefs(store cafs.Filestore, path datastore.Key)\<close>. The store is what
  it answers: \<open>get n k\<close> is the outcome of \<^verbatim>\<open>fileBytes(store.Get(k))\<close> when \<open>n\<close> calls
  came before it, the text of an error or the bytes read. \<open>PackageKeypath\<close> stands for
  \<^verbatim>\<open>PackageKeypath(store, _, PackageFileDataset)\<close> and \<open>UnmarshalDataset\<close> for
  \<^verbatim>\<open>dataset.UnmarshalDataset\<close>, which allocates the decoded dataset; neither is among
  the sources. The result comes with the number of calls made to the store.
\<close>

definition decode_and_bind ::
  "(heap \<Rightarrow> bytes \<Rightarrow> string + ref \<times> heap) \<Rightarrow> heap \<Rightarrow> Key \<Rightarrow> bytes \<Rightarrow> error + ref \<times> heap" where
  "decode_and_bind UnmarshalDataset h path data =
     (case UnmarshalDataset h data of
        Inl err \<Rightarrow> Inl (ErrUnmarshalingDataset err)
      | Inr (ds, h1) \<Rightarrow>
          (let (r, h2) = new_Dataset (dataset_NewDatasetRef path) h1
           in Inr (ds, Dataset_Assign ds [Some r] h2)))"

definition LoadDatasetRefs ::
  "(nat \<Rightarrow> Key \<Rightarrow> string + bytes) \<Rightarrow> (Key \<Rightarrow> Key) \<Rightarrow> (heap \<Rightarrow> bytes \<Rightarrow> string + ref \<times> heap)
   \<Rightarrow> heap \<Rightarrow> Key \<Rightarrow> (error + ref \<times> heap) \<times> nat" where
  "LoadDatasetRefs get PackageKeypath UnmarshalDataset h path0 =
     (let path = PackageKeypath path0;
          second =
            (case get 1 path of
               Inl err \<Rightarrow> (Inl (ErrGettingFileBytes err), 2)
             | Inr data \<Rightarrow> (decode_and_bind UnmarshalDataset h path data, 2))
      in case get 0 path of
           Inl err \<Rightarrow> second
         | Inr data \<Rightarrow>
             if length data = 0 then second
             else (decode_and_bind UnmarshalDataset h path data, 1))"

text \<open>
  Two stand-ins for running the function: a store whose first answer is empty and
  whose later answers are the document, and a decoder that rejects empty input and
  otherwise allocates a dataset.
\<close>

definition flaky_get :: "nat \<Rightarrow> Key \<Rightarrow> string + bytes" where
  "flaky_get n k = (if n = 0 then Inr [] else Inr ''{}'')"

definition fresh_decoder :: "heap \<Rightarrow> bytes \<Rightarrow> string + ref \<times> heap" where
  "fresh_decoder h data =
     (if data = [] then Inl ''unexpected end of JSON input''
      else Inr (new_Dataset Dataset_zero h))"

subsection \<open>WriteDataset\<close>

text \<open>
  Modelled from the spec: the package file names and the two script file names are
  constants of the layer that are not among the sources; the spec has them as "fixed
  strings: top-level document, structure document, meta document, commit document,
  transform document, viz document, plus two script filenames". What matters below is
  that they are eight different strings.
\<close>

definition PackageFileDataset :: string where "PackageFileDataset = ''dataset.json''"
definition PackageFileStructure :: string where "PackageFileStructure = ''structure.json''"
definition PackageFileMeta :: string where "PackageFileMeta = ''meta.json''"
definition PackageFileCommit :: string where "PackageFileCommit = ''commit.json''"
definition PackageFileTransform :: string where "PackageFileTransform = ''transform.json''"
definition PackageFileViz :: string where "PackageFileViz = ''viz.json''"
definition transformScriptFilename :: string where "transformScriptFilename = ''transform_script''"
definition vizScriptFilename :: string where "vizScriptFilename = ''viz_script''"

lemmas file_names =
  PackageFileDataset_def PackageFileStructure_def PackageFileMeta_def PackageFileCommit_def
  PackageFileTransform_def PackageFileViz_def transformScriptFilename_def vizScriptFilename_def

text \<open>
  What \<^verbatim>\<open>WriteDataset\<close> calls and the sources do not define: the JSON encoders of the
  sub-documents and of the dataset (\<open>None\<close> for an error), and whether the store's
  \<^verbatim>\<open>NewAdder\<close> and the adder's \<^verbatim>\<open>Close\<close> return an error.
\<close>

record env =
  json_Marshal_Meta :: "Doc \<Rightarrow> bytes option"
  json_Marshal_Structure :: "Doc \<Rightarrow> bytes option"
  json_Marshal_Commit :: "Doc \<Rightarrow> bytes option"
  json_Marshal_Transform :: "TransformObj \<Rightarrow> bytes option"
  json_Marshal_Viz :: "VizObj \<Rightarrow> bytes option"
  json_Marshal_Dataset :: "heap \<Rightarrow> Dataset \<Rightarrow> bytes option"
  NewAdder_ok :: bool
  Close_ok :: bool

text \<open>
  The content store is an external collaborator. What passes between \<^verbatim>\<open>WriteDataset\<close>
  and the store is recorded in order: the calls \<^verbatim>\<open>NewAdder(pin, true)\<close>,
  \<^verbatim>\<open>AddFile\<close> (file name and content) and \<^verbatim>\<open>Close\<close>, and what the store does with an
  added file: \<open>Added\<close> is the completion event read from \<^verbatim>\<open>adder.Added()\<close>, with the
  file's name and new address; \<open>Failed\<close> says that the addition failed, in which case
  no event arrives (the value \<^verbatim>\<open>AddFile\<close> returns is not looked at by the code). The
  store completes the outstanding additions in any order: a \<open>completion\<close> names the
  position of the file among the outstanding ones and, if it succeeds, its address.
\<close>

datatype store_event =
    NewAdder bool bool
  | AddFile string bytes
  | Close
  | Added string Key
  | Failed string

datatype completion = Complete nat Key | Fail nat

text \<open>
  Where a call of \<^verbatim>\<open>WriteDataset\<close> stands: still waiting for the store (\<open>Running\<close>),
  returned a key and a nil error, returned an error (the key returned with it is not
  kept), or stopped by a nil dereference.
\<close>

datatype outcome = Running | Succeeds Key | Fails error | Panics

text \<open>
  The variables of \<^verbatim>\<open>WriteDataset\<close>: the objects, the pointer \<^verbatim>\<open>ds\<close> (after
  \<^verbatim>\<open>ds = cp\<close>), \<^verbatim>\<open>fileTasks\<close>, the adder (its outstanding files and whether it was
  closed), \<^verbatim>\<open>path\<close>, and the record of the exchange with the store. The variable
  \<^verbatim>\<open>addedDataset\<close> is never assigned after its initialisation to false and is left out.
\<close>

record wd =
  w_heap :: heap
  w_ds :: ref
  w_fileTasks :: int
  w_pending :: "(string \<times> bytes) list"
  w_closed :: bool
  w_path :: Key
  w_trace :: "store_event list"
  w_outcome :: outcome

definition fails :: "error \<Rightarrow> wd \<Rightarrow> wd" where
  "fails e s = s\<lparr>w_outcome := Fails e\<rparr>"

definition panics :: "wd \<Rightarrow> wd" where
  "panics s = s\<lparr>w_outcome := Panics\<rparr>"

definition andthen :: "(wd \<Rightarrow> wd) \<Rightarrow> (wd \<Rightarrow> wd) \<Rightarrow> wd \<Rightarrow> wd" where
  "andthen f g s = (let s' = f s in if w_outcome s' = Running then g s' else s')"

text \<open>
  \<^verbatim>\<open>adder.AddFile(f)\<close> hands a file to the adder. \<^verbatim>\<open>adder.Close()\<close> ends the stream
  of events once the files handed over before it have been dealt with.
\<close>

definition adder_AddFile :: "string \<Rightarrow> bytes \<Rightarrow> wd \<Rightarrow> wd" where
  "adder_AddFile name data s =
     s\<lparr>w_pending := w_pending s @ [(name, data)],
       w_trace := w_trace s @ [AddFile name data]\<rparr>"

definition adder_Close :: "env \<Rightarrow> wd \<Rightarrow> wd" where
  "adder_Close cd s =
     (let s' = s\<lparr>w_closed := True, w_trace := w_trace s @ [Close]\<rparr>
      in if Close_ok cd then s' else fails ErrClose s')"

definition fileTasks_incr :: "wd \<Rightarrow> wd" where
  "fileTasks_incr s = s\<lparr>w_fileTasks := w_fileTasks s + 1\<rparr>"

definition with_ds :: "wd \<Rightarrow> (Dataset \<Rightarrow> wd) \<Rightarrow> wd" where
  "with_ds s f =
     (case h_Dataset (w_heap s) (w_ds s) of
        None \<Rightarrow> panics s
      | Some d \<Rightarrow> f d)"

definition upd_ds :: "(Dataset \<Rightarrow> Dataset) \<Rightarrow> wd \<Rightarrow> wd" where
  "upd_ds f s =
     with_ds s (\<lambda>d. s\<lparr>w_heap := (w_heap s)\<lparr>h_Dataset := (h_Dataset (w_heap s))(w_ds s \<mapsto> f d)\<rparr>\<rparr>)"

text \<open>
  The loop \<^verbatim>\<open>for key, r := range ds.Transform.Resources { if r.Path == "" {...} }\<close>:
  the key of the first resource without a path, in the order the \<^verbatim>\<open>range\<close> visits
  them.
\<close>

fun first_unbound :: "(string \<times> TransformResource) list \<Rightarrow> string option" where
  "first_unbound [] = None"
| "first_unbound ((key, r) # rs) = (if r_Path r = '''' then Some key else first_unbound rs)"

text \<open>
  The blocks of \<^verbatim>\<open>WriteDataset\<close> before the event loop, in the order of the source:
  \<^verbatim>\<open>if ds.Meta != nil\<close>, the body file, \<^verbatim>\<open>if ds.Transform != nil\<close>,
  \<^verbatim>\<open>if ds.Commit != nil\<close>, \<^verbatim>\<open>if ds.Structure != nil\<close>, \<^verbatim>\<open>if ds.Viz != nil\<close>. The
  data file is its name and its content.
\<close>

definition write_Meta :: "env \<Rightarrow> wd \<Rightarrow> wd" where
  "write_Meta cd s =
     with_ds s (\<lambda>d.
       case ds_Meta d of
         None \<Rightarrow> s
       | Some m \<Rightarrow>
           (case h_Meta (w_heap s) m of
              None \<Rightarrow> panics s
            | Some md \<Rightarrow>
                (case json_Marshal_Meta cd md of
                   None \<Rightarrow> fails (ErrMarshaling ''metadata'') s
                 | Some mdf \<Rightarrow> adder_AddFile PackageFileMeta mdf (fileTasks_incr s))))"

definition write_Body :: "string \<times> bytes \<Rightarrow> wd \<Rightarrow> wd" where
  "write_Body dataFile s = adder_AddFile (fst dataFile) (snd dataFile) (fileTasks_incr s)"

definition write_Transform :: "env \<Rightarrow> wd \<Rightarrow> wd" where
  "write_Transform cd s =
     with_ds s (\<lambda>d.
       case ds_Transform d of
         None \<Rightarrow> s
       | Some t \<Rightarrow>
           (case h_Transform (w_heap s) t of
              None \<Rightarrow> panics s
            | Some tf \<Rightarrow>
                (case first_unbound (case t_Resources tf of None \<Rightarrow> [] | Some rs \<Rightarrow> rs) of
                   Some key \<Rightarrow> fails (ErrResourceRequiresPath key) s
                 | None \<Rightarrow>
                     (case t_Script tf of
                        Some script \<Rightarrow>
                          fileTasks_incr
                            (adder_AddFile transformScriptFilename script (fileTasks_incr s))
                      | None \<Rightarrow>
                          (case json_Marshal_Transform cd tf of
                             None \<Rightarrow> fails (ErrMarshaling ''transform'') s
                           | Some tfdata \<Rightarrow>
                               adder_AddFile PackageFileTransform tfdata (fileTasks_incr s))))))"

definition write_Commit :: "env \<Rightarrow> wd \<Rightarrow> wd" where
  "write_Commit cd s =
     with_ds s (\<lambda>d.
       case ds_Commit d of
         None \<Rightarrow> s
       | Some c \<Rightarrow>
           (case h_Commit (w_heap s) c of
              None \<Rightarrow> panics s
            | Some cm \<Rightarrow>
                (case json_Marshal_Commit cd cm of
                   None \<Rightarrow> fails (ErrMarshaling ''commit'') s
                 | Some cmf \<Rightarrow> adder_AddFile PackageFileCommit cmf (fileTasks_incr s))))"

definition write_Structure :: "env \<Rightarrow> wd \<Rightarrow> wd" where
  "write_Structure cd s =
     with_ds s (\<lambda>d.
       case ds_Structure d of
         None \<Rightarrow> s
       | Some r \<Rightarrow>
           (case h_Structure (w_heap s) r of
              None \<Rightarrow> panics s
            | Some st \<Rightarrow>
                (case json_Marshal_Structure cd st of
                   None \<Rightarrow> fails (ErrMarshaling ''structure'') s
                 | Some stf \<Rightarrow> adder_AddFile PackageFileStructure stf (fileTasks_incr s))))"

definition write_Viz :: "env \<Rightarrow> wd \<Rightarrow> wd" where
  "write_Viz cd s =
     with_ds s (\<lambda>d.
       case ds_Viz d of
         None \<Rightarrow> s
       | Some r \<Rightarrow>
           (case h_Viz (w_heap s) r of
              None \<Rightarrow> panics s
            | Some vz \<Rightarrow>
                (case v_Script vz of
                   Some script \<Rightarrow>
                     fileTasks_incr (adder_AddFile vizScriptFilename script (fileTasks_incr s))
                 | None \<Rightarrow>
                     (case json_Marshal_Viz cd vz of
                        None \<Rightarrow> fails (ErrMarshaling ''viz'') s
                      | Some vizdata \<Rightarrow>
                          adder_AddFile PackageFileViz vizdata (fileTasks_incr s)))))"

text \<open>\<^verbatim>\<open>cp := &dataset.Dataset{}; cp.Assign(ds); ds = cp\<close>.\<close>

definition copy_input :: "heap \<Rightarrow> ref option \<Rightarrow> wd" where
  "copy_input h ds =
     (let (cp, h1) = new_Dataset Dataset_zero h;
          h2 = Dataset_Assign cp [ds] h1
      in \<lparr>w_heap = h2, w_ds = cp, w_fileTasks = 0, w_pending = [], w_closed = False,
          w_path = '''', w_trace = [], w_outcome = Running\<rparr>)"

definition check_empty :: "wd \<Rightarrow> wd" where
  "check_empty s = with_ds s (\<lambda>d. if Dataset_IsEmpty d then fails ErrEmptyDataset s else s)"

definition store_NewAdder :: "env \<Rightarrow> bool \<Rightarrow> wd \<Rightarrow> wd" where
  "store_NewAdder cd pin s =
     (let s' = s\<lparr>w_trace := w_trace s @ [NewAdder pin True]\<rparr>
      in if NewAdder_ok cd then s' else fails ErrNewAdder s')"

definition WriteDataset_prologue :: "env \<Rightarrow> heap \<Rightarrow> ref option \<Rightarrow> string \<times> bytes \<Rightarrow> bool \<Rightarrow> wd" where
  "WriteDataset_prologue cd h ds dataFile pin =
     (andthen check_empty
     (andthen (store_NewAdder cd pin)
     (andthen (write_Meta cd)
     (andthen (write_Body dataFile)
     (andthen (write_Transform cd)
     (andthen (write_Commit cd)
     (andthen (write_Structure cd)
              (write_Viz cd)))))))) (copy_input h ds)"

text \<open>
  The cases of the \<^verbatim>\<open>switch ao.Name\<close> in the event loop. The first five replace a
  sub-document of the copy by a new reference, e.g.
  \<^verbatim>\<open>ds.Structure = dataset.NewStructureRef(ao.Path)\<close>.
\<close>

definition set_slot_Structure :: "Key \<Rightarrow> wd \<Rightarrow> wd" where
  "set_slot_Structure p s =
     (let (r, h) = new_Structure (dataset_NewDocRef p) (w_heap s)
      in upd_ds (\<lambda>d. d\<lparr>ds_Structure := Some r\<rparr>) (s\<lparr>w_heap := h\<rparr>))"

definition set_slot_Transform :: "Key \<Rightarrow> wd \<Rightarrow> wd" where
  "set_slot_Transform p s =
     (let (r, h) = new_Transform (dataset_NewTransformRef p) (w_heap s)
      in upd_ds (\<lambda>d. d\<lparr>ds_Transform := Some r\<rparr>) (s\<lparr>w_heap := h\<rparr>))"

definition set_slot_Meta :: "Key \<Rightarrow> wd \<Rightarrow> wd" where
  "set_slot_Meta p s =
     (let (r, h) = new_Meta (dataset_NewDocRef p) (w_heap s)
      in upd_ds (\<lambda>d. d\<lparr>ds_Meta := Some r\<rparr>) (s\<lparr>w_heap := h\<rparr>))"

definition set_slot_Commit :: "Key \<Rightarrow> wd \<Rightarrow> wd" where
  "set_slot_Commit p s =
     (let (r, h) = new_Commit (dataset_NewDocRef p) (w_heap s)
      in upd_ds (\<lambda>d. d\<lparr>ds_Commit := Some r\<rparr>) (s\<lparr>w_heap := h\<rparr>))"

definition set_slot_Viz :: "Key \<Rightarrow> wd \<Rightarrow> wd" where
  "set_slot_Viz p s =
     (let (r, h) = new_Viz (dataset_NewVizRef p) (w_heap s)
      in upd_ds (\<lambda>d. d\<lparr>ds_Viz := Some r\<rparr>) (s\<lparr>w_heap := h\<rparr>))"

text \<open>
  \<^verbatim>\<open>case transformScriptFilename\<close>: \<^verbatim>\<open>ds.Transform.ScriptPath = ao.Path.String()\<close>
  writes to the object \<^verbatim>\<open>ds.Transform\<close> points to, then the transform is encoded and
  added. \<^verbatim>\<open>case vizScriptFilename\<close> is the same for the viz.
\<close>

definition transform_script_added :: "env \<Rightarrow> Key \<Rightarrow> wd \<Rightarrow> wd" where
  "transform_script_added cd p s =
     with_ds s (\<lambda>d.
       case ds_Transform d of
         None \<Rightarrow> panics s
       | Some t \<Rightarrow>
           (case h_Transform (w_heap s) t of
              None \<Rightarrow> panics s
            | Some tf \<Rightarrow>
                (let tf' = tf\<lparr>t_ScriptPath := p\<rparr>;
                     s' = s\<lparr>w_heap := (w_heap s)\<lparr>h_Transform := (h_Transform (w_heap s))(t \<mapsto> tf')\<rparr>\<rparr>
                 in case json_Marshal_Transform cd tf' of
                      None \<Rightarrow> fails (ErrMarshaling ''transform'') s'
                    | Some tfdata \<Rightarrow> adder_AddFile PackageFileTransform tfdata s')))"

definition viz_script_added :: "env \<Rightarrow> Key \<Rightarrow> wd \<Rightarrow> wd" where
  "viz_script_added cd p s =
     with_ds s (\<lambda>d.
       case ds_Viz d of
         None \<Rightarrow> panics s
       | Some r \<Rightarrow>
           (case h_Viz (w_heap s) r of
              None \<Rightarrow> panics s
            | Some vz \<Rightarrow>
                (let vz' = vz\<lparr>v_ScriptPath := p\<rparr>;
                     s' = s\<lparr>w_heap := (w_heap s)\<lparr>h_Viz := (h_Viz (w_heap s))(r \<mapsto> vz')\<rparr>\<rparr>
                 in case json_Marshal_Viz cd vz' of
                      None \<Rightarrow> fails (ErrMarshaling ''viz'') s'
                    | Some vizdata \<Rightarrow> adder_AddFile PackageFileViz vizdata s')))"

text \<open>The \<^verbatim>\<open>switch\<close>: the first case that equals the name is taken.\<close>

definition dispatch :: "env \<Rightarrow> string \<Rightarrow> string \<Rightarrow> Key \<Rightarrow> wd \<Rightarrow> wd" where
  "dispatch cd dataFileName name p s =
     (if name = PackageFileStructure then set_slot_Structure p s
      else if name = PackageFileTransform then set_slot_Transform p s
      else if name = PackageFileMeta then set_slot_Meta p s
      else if name = PackageFileCommit then set_slot_Commit p s
      else if name = PackageFileViz then set_slot_Viz p s
      else if name = dataFileName then upd_ds (\<lambda>d. d\<lparr>ds_BodyPath := p\<rparr>) s
      else if name = transformScriptFilename then transform_script_added cd p s
      else if name = vizScriptFilename then viz_script_added cd p s
      else s)"

text \<open>
  \<^verbatim>\<open>fileTasks--\<close> and, at zero, the top-level document: the copy is encoded, added
  under \<^verbatim>\<open>PackageFileDataset\<close>, and the adder is closed.
\<close>

definition count_down :: "env \<Rightarrow> wd \<Rightarrow> wd" where
  "count_down cd s0 =
     (let s = s0\<lparr>w_fileTasks := w_fileTasks s0 - 1\<rparr>
      in if w_fileTasks s = 0 then
           with_ds s (\<lambda>d.
             case json_Marshal_Dataset cd (w_heap s) d of
               None \<Rightarrow> fails (ErrMarshaling ''dataset'') s
             | Some dsdata \<Rightarrow> adder_Close cd (adder_AddFile PackageFileDataset dsdata s))
         else s)"

text \<open>The body of the loop for one event \<^verbatim>\<open>ao\<close>.\<close>

definition on_added :: "env \<Rightarrow> string \<Rightarrow> string \<Rightarrow> Key \<Rightarrow> wd \<Rightarrow> wd" where
  "on_added cd dataFileName name p s =
     andthen (dispatch cd dataFileName name p) (count_down cd) (s\<lparr>w_path := p\<rparr>)"

text \<open>
  \<^verbatim>\<open>for ao := range adder.Added()\<close> ends when the adder was closed and nothing is
  outstanding; then \<^verbatim>\<open>done <- nil\<close> and \<^verbatim>\<open>WriteDataset\<close> returns \<^verbatim>\<open>path\<close>.
\<close>

definition finish :: "wd \<Rightarrow> wd" where
  "finish s =
     (if w_outcome s = Running \<and> w_closed s \<and> w_pending s = []
      then s\<lparr>w_outcome := Succeeds (w_path s)\<rparr> else s)"

definition remove_nth :: "nat \<Rightarrow> 'a list \<Rightarrow> 'a list" where
  "remove_nth i xs = take i xs @ drop (Suc i) xs"

text \<open>One move of the store, and the loop's reaction to it.\<close>

definition store_step :: "env \<Rightarrow> string \<Rightarrow> completion \<Rightarrow> wd \<Rightarrow> wd" where
  "store_step cd dataFileName c s =
     (if w_outcome s \<noteq> Running then s
      else case c of
        Complete i p \<Rightarrow>
          (if i < length (w_pending s) then
             (let name = fst (w_pending s ! i)
              in on_added cd dataFileName name p
                   (s\<lparr>w_pending := remove_nth i (w_pending s),
                      w_trace := w_trace s @ [Added name p]\<rparr>))
           else s)
      | Fail i \<Rightarrow>
          (if i < length (w_pending s) then
             s\<lparr>w_pending := remove_nth i (w_pending s),
               w_trace := w_trace s @ [Failed (fst (w_pending s ! i))]\<rparr>
           else s))"

text \<open>
  The event loop under a schedule of the store. When the schedule ends with files
  outstanding or the adder open, the loop is still waiting and the call has not
  returned.
\<close>

fun added_loop :: "env \<Rightarrow> string \<Rightarrow> completion list \<Rightarrow> wd \<Rightarrow> wd" where
  "added_loop cd dataFileName [] s = finish s"
| "added_loop cd dataFileName (c # cs) s =
     added_loop cd dataFileName cs (store_step cd dataFileName c (finish s))"

text \<open>
  \<^verbatim>\<open>func WriteDataset(store cafs.Filestore, ds *dataset.Dataset, dataFile cafs.File,
  pin bool) (datastore.Key, error)\<close>.
\<close>

definition WriteDataset ::
  "env \<Rightarrow> completion list \<Rightarrow> heap \<Rightarrow> ref option \<Rightarrow> string \<times> bytes \<Rightarrow> bool \<Rightarrow> wd" where
  "WriteDataset cd sched h ds dataFile pin =
     (let s = WriteDataset_prologue cd h ds dataFile pin
      in if w_outcome s = Running then added_loop cd (fst dataFile) sched s else s)"

text \<open>
  Stand-ins for the encoders, and small inputs for running the function: a dataset
  whose transform has a script, one with every sub-document, one with a transform
  whose resource has no path, and one with a structure only, whose top-level document
  the store drops.
\<close>

definition plain_env :: env where
  "plain_env =
     \<lparr>json_Marshal_Meta = (\<lambda>d. Some (d_path d)),
      json_Marshal_Structure = (\<lambda>d. Some (d_path d)),
      json_Marshal_Commit = (\<lambda>d. Some (d_path d)),
      json_Marshal_Transform = (\<lambda>t. Some (t_ScriptPath t)),
      json_Marshal_Viz = (\<lambda>v. Some (v_ScriptPath v)),
      json_Marshal_Dataset = (\<lambda>h d. Some (ds_BodyPath d)),
      NewAdder_ok = True,
      Close_ok = True\<rparr>"

definition script_heap :: heap where
  "script_heap =
     empty_heap\<lparr>
       h_Dataset := [0 \<mapsto> Dataset_zero\<lparr>ds_Transform := Some 1\<rparr>],
       h_Transform := [1 \<mapsto> (dataset_NewTransformRef '''')\<lparr>t_Script := Some ''print(1)''\<rparr>],
       h_next := 2\<rparr>"

definition script_schedule :: "completion list" where
  "script_schedule =
     [Complete 0 ''/a'', Complete 0 ''/b'', Complete 0 ''/c'', Complete 0 ''/d'']"

definition unbound_heap :: heap where
  "unbound_heap =
     empty_heap\<lparr>
       h_Dataset := [0 \<mapsto> Dataset_zero\<lparr>ds_Transform := Some 1\<rparr>],
       h_Transform := [1 \<mapsto> (dataset_NewTransformRef '''')
                              \<lparr>t_Resources := Some [(''a'', \<lparr>r_Path = ''''\<rparr>)]\<rparr>],
       h_next := 2\<rparr>"





subsection \<open>The exchange with the store, read from its record\<close>

text \<open>
  The names of the files handed to the adder, of the files whose completion was
  reported, and of the files whose addition failed; and the address in the last
  completion event, \<open>k\<close> when there is none.
\<close>

fun added_names :: "store_event list \<Rightarrow> string list" where
  "added_names [] = []"
| "added_names (AddFile n b # es) = n # added_names es"
| "added_names (e # es) = added_names es"

fun reported_names :: "store_event list \<Rightarrow> string list" where
  "reported_names [] = []"
| "reported_names (Added n p # es) = n # reported_names es"
| "reported_names (e # es) = reported_names es"

fun failed_names :: "store_event list \<Rightarrow> string list" where
  "failed_names [] = []"
| "failed_names (Failed n # es) = n # failed_names es"
| "failed_names (e # es) = failed_names es"

fun last_key :: "Key \<Rightarrow> store_event list \<Rightarrow> Key" where
  "last_key k [] = k"
| "last_key k (Added n p # es) = last_key p es"
| "last_key k (e # es) = last_key k es"

text \<open>
  The file that the completion of a file brings with it: the second phase of a script,
  when the script reaches its own case of the \<^verbatim>\<open>switch\<close> (the case of the data file's
  name comes before the two script cases).
\<close>

definition second_phase :: "string \<Rightarrow> string \<Rightarrow> string list" where
  "second_phase dataFileName n =
     (if n = dataFileName then []
      else if n = transformScriptFilename then [PackageFileTransform]
      else if n = vizScriptFilename then [PackageFileViz]
      else [])"

definition second_phases :: "string \<Rightarrow> string list \<Rightarrow> string list" where
  "second_phases dataFileName ns = concat (map (second_phase dataFileName) ns)"

text \<open>
  What a file still outstanding will take off \<^verbatim>\<open>fileTasks\<close>: one for itself and one
  for the file it brings with it.
\<close>

definition weight :: "string \<Rightarrow> string \<Rightarrow> int" where
  "weight dataFileName n =
     (if (n = transformScriptFilename \<or> n = vizScriptFilename) \<and> n \<noteq> dataFileName then 2 else 1)"

definition owed :: "string \<Rightarrow> string list \<Rightarrow> int" where
  "owed dataFileName ns = sum_list (map (weight dataFileName) ns)"

text \<open>Every file handed over is reported, failed, or still outstanding.\<close>

definition accounted :: "wd \<Rightarrow> bool" where
  "accounted s \<longleftrightarrow>
     mset (added_names (w_trace s)) =
       mset (reported_names (w_trace s)) + mset (failed_names (w_trace s))
       + mset (map fst (w_pending s))"








text \<open>
  The state of \<^verbatim>\<open>WriteDataset\<close> before the event loop: \<open>E\<close> are the files of the save and
  \<open>R\<close> those of the blocks still to come; nothing has been reported, \<^verbatim>\<open>fileTasks\<close>
  counts the files of the blocks done, and these have been handed over, are the second
  phase of a script handed over, or will never be handed over (\<open>dead\<close>: the second phase
  of a script that carries the name of the data file).
\<close>

definition pro :: "string \<Rightarrow> heap \<Rightarrow> ref \<Rightarrow> string list \<Rightarrow> string list \<Rightarrow> wd \<Rightarrow> bool" where
  "pro dataFileName h r E R s \<longleftrightarrow>
     w_heap s = h \<and> w_ds s = r \<and> w_path s = '''' \<and> \<not> w_closed s \<and>
     (\<forall>p. w_outcome s \<noteq> Succeeds p) \<and> Close \<notin> set (w_trace s) \<and>
     reported_names (w_trace s) = [] \<and> failed_names (w_trace s) = [] \<and>
     map fst (w_pending s) = added_names (w_trace s) \<and>
     (\<exists>L. E = L @ R \<and> mset (added_names (w_trace s)) \<subseteq># mset L \<and>
        (w_outcome s = Running \<longrightarrow>
           w_fileTasks s = int (length L) \<and>
           (\<exists>dead. mset (added_names (w_trace s))
                    + mset (second_phases dataFileName (added_names (w_trace s))) + dead = mset L)))"

text \<open>
  The state of the loop before the adder is closed, with \<open>k\<close> decrements owed for
  the event being handled and \<open>X\<close> the file it is about to bring; and after.
\<close>

definition inv_open :: "string \<Rightarrow> string multiset \<Rightarrow> int \<Rightarrow> string multiset \<Rightarrow> wd \<Rightarrow> bool" where
  "inv_open dataFileName E k X s \<longleftrightarrow>
     \<not> w_closed s \<and> Close \<notin> set (w_trace s) \<and> accounted s \<and>
     (\<forall>p. w_outcome s \<noteq> Succeeds p) \<and> w_path s = last_key '''' (w_trace s) \<and>
     (\<exists>dead.
        mset (added_names (w_trace s)) + mset (second_phases dataFileName (map fst (w_pending s)))
          + mset (second_phases dataFileName (failed_names (w_trace s))) + X + dead = E \<and>
        owed dataFileName (map fst (w_pending s)) + owed dataFileName (failed_names (w_trace s))
          + k + int (size X) + int (size dead) \<le> w_fileTasks s)"


text \<open>Two states that differ at most in the objects and in a failure.\<close>

definition same_adder :: "wd \<Rightarrow> wd \<Rightarrow> bool" where
  "same_adder s s' \<longleftrightarrow>
     w_trace s' = w_trace s \<and> w_pending s' = w_pending s \<and> w_closed s' = w_closed s \<and>
     w_fileTasks s' = w_fileTasks s \<and> w_path s' = w_path s \<and> w_ds s' = w_ds s \<and>
     (w_outcome s' = w_outcome s \<or> w_outcome s' = Panics \<or> (\<exists>e. w_outcome s' = Fails e))"



text \<open>
  Two states with the same pointer \<^verbatim>\<open>ds\<close> and, unless it is that pointer, the same
  Dataset object at \<open>r\<close>.
\<close>

definition keeps :: "ref \<Rightarrow> wd \<Rightarrow> wd \<Rightarrow> bool" where
  "keeps r s s' \<longleftrightarrow>
     w_ds s' = w_ds s \<and> (w_ds s \<noteq> r \<longrightarrow> h_Dataset (w_heap s') r = h_Dataset (w_heap s) r)"

section \<open>Theorems\<close>

subsection \<open>Data formats\<close>

text \<open>
  C10. For each of the six defined data formats, parsing the string form of the format
  gives the format back, without an error.
\<close>

theorem C10_DataFormat_roundtrip:
  "f \<in> set defined_DataFormats \<Longrightarrow> ParseDataFormatString (DataFormat_String f) = Inr f"
  by (auto simp: defined_DataFormats_def ParseDataFormatString_def DataFormat_String_def
      DataFormat_names_def DataFormat_parse_table_def DataFormat_defs)

theorem C10_DataFormat_roundtrip_witness:
  "JsonArrayDataFormat \<in> set defined_DataFormats
   \<and> ParseDataFormatString (DataFormat_String JsonArrayDataFormat) = Inr JsonArrayDataFormat"
  using C10_DataFormat_roundtrip [of JsonArrayDataFormat]
  by (simp add: defined_DataFormats_def)

subsection \<open>Shape analysis\<close>

lemma containers_nonneg: "0 \<le> containers v" and containers_sum_nonneg: "0 \<le> containers_sum vs"
  by (induction v and vs rule: containers_containers_sum.induct) auto

text \<open>What \<^verbatim>\<open>getDepth\<close> computes: the base depth plus the number of containers.\<close>

lemma getDepth_containers:
  "getDepth v d = d + containers v"
  "getDepth_loop vs d = d + containers_sum vs"
proof (induction v d and vs d rule: getDepth_getDepth_loop.induct)
  case (5 el els depth)
  have "0 \<le> containers el" by (rule containers_nonneg)
  with 5 show ?case by (auto simp: Let_def)
qed auto

text \<open>
  C9. One entry, an array holding two arrays of scalars, has two levels of nesting, so
  with the baseline of 1 its depth is 3; the analyzer reports 4. The entry of the
  specification's example, an object holding one object, is reported as 3 with 1 entry.
\<close>

theorem C9_depth_overcounts_siblings:
  "setDepthAndEntryCount [VArr [VArr [VScalar ''1''], VArr [VScalar ''2'']]] ''EOF'' = Inr (1, 4)
   \<and> 1 + nesting (VArr [VArr [VScalar ''1''], VArr [VScalar ''2'']]) = 3
   \<and> setDepthAndEntryCount [VObj [(''a'', VObj [(''b'', VScalar ''1'')])]] ''EOF'' = Inr (1, 3)"
  by (simp add: setDepthAndEntryCount_def)

subsection \<open>Commit title and message\<close>

lemma Index_bounds: "-1 \<le> Index s c \<and> Index s c < int (length s)"
  by (induction s) (auto simp: Let_def)

lemma Index_neg_iff: "Index s c < 0 \<longleftrightarrow> c \<notin> set s"
  by (induction s) (auto simp: Let_def)

lemma Index_take: "0 \<le> Index s c \<Longrightarrow> c \<notin> set (take (nat (Index s c)) s)"
proof (induction s)
  case Nil then show ?case by simp
next
  case (Cons x xs)
  show ?case
  proof (cases "x = c")
    case True then show ?thesis by simp
  next
    case False
    with Cons.prems have nn: "0 \<le> Index xs c" by (auto simp: Let_def split: if_splits)
    with False have "Index (x # xs) c = Index xs c + 1" by (simp add: Let_def)
    moreover have "nat (Index xs c + 1) = Suc (nat (Index xs c))" using nn by simp
    ultimately show ?thesis using False Cons.IH[OF nn] by simp
  qed
qed

lemma Index_decomp:
  "0 \<le> Index s c \<Longrightarrow> s = take (nat (Index s c)) s @ c # drop (nat (Index s c + 1)) s"
proof (induction s)
  case Nil then show ?case by simp
next
  case (Cons x xs)
  show ?case
  proof (cases "x = c")
    case True then show ?thesis by simp
  next
    case False
    with Cons.prems have nn: "0 \<le> Index xs c" by (auto simp: Let_def split: if_splits)
    with False have e: "Index (x # xs) c = Index xs c + 1" by (simp add: Let_def)
    have n1: "nat (Index xs c + 1) = Suc (nat (Index xs c))" using nn by simp
    have n2: "nat (Index xs c + 1 + 1) = Suc (nat (Index xs c + 1))" using nn by simp
    show ?thesis using Cons.IH[OF nn] by (simp only: e n1 n2 take_Suc_Cons drop_Suc_Cons append_Cons)
  qed
qed

lemma LastIndex_bounds: "-1 \<le> LastIndex s c \<and> LastIndex s c < int (length s)"
  by (induction s) (auto simp: Let_def)

lemma adjust_length_le: "length (fst (adjust_length (st, sm))) \<le> 70"
proof -
  have "LastIndex (take 67 st) (CHR '' '') < int (length (take 67 st))"
    using LastIndex_bounds by blast
  then have "LastIndex (take 67 st) (CHR '' '') < 67" by simp
  then show ?thesis by (auto simp: adjust_length_def Let_def)
qed

lemma adjust_line_breaks_le: "length (fst (adjust_line_breaks p)) \<le> length (fst p)"
  by (cases p) (auto simp: adjust_line_breaks_def Let_def)

lemma cleanTitle_length_le_70: "length (fst (cleanTitleAndMessage t m d)) \<le> 70"
  unfolding cleanTitleAndMessage_def
  by (metis adjust_length_le adjust_line_breaks_le order_trans prod.collapse)

lemma Index_zero_iff: "Index s c = 0 \<longleftrightarrow> (\<exists>xs. s = c # xs)"
proof (cases s)
  case Nil then show ?thesis by simp
next
  case (Cons x xs)
  have "-1 \<le> Index xs c" using Index_bounds by blast
  then show ?thesis using Cons by (auto simp: Let_def)
qed

lemma adjust_line_breaks_newline:
  "newline \<in> set (fst (adjust_line_breaks (st, sm))) \<longleftrightarrow> (\<exists>xs. st = newline # xs)"
proof -
  consider "Index st newline < 0" | "Index st newline = 0" | "0 < Index st newline" by linarith
  then show ?thesis
  proof cases
    case 1
    then have "newline \<notin> set st" by (simp add: Index_neg_iff)
    moreover have "\<not> (\<exists>xs. st = newline # xs)" using calculation by auto
    ultimately show ?thesis using 1 by (simp add: adjust_line_breaks_def Let_def)
  next
    case 2
    then obtain xs where "st = newline # xs" using Index_zero_iff by blast
    then show ?thesis using 2 by (simp add: adjust_line_breaks_def Let_def)
  next
    case 3
    then have a: "newline \<notin> set (take (nat (Index st newline)) st)" using Index_take by simp
    have "\<not> (\<exists>xs. st = newline # xs)" using 3 Index_zero_iff[of st newline] by auto
    then show ?thesis using 3 a by (simp add: adjust_line_breaks_def Let_def)
  qed
qed

lemma adjust_length_head:
  "(\<exists>xs. fst (adjust_length (st, sm)) = c # xs) \<longleftrightarrow> (\<exists>xs. st = c # xs)"
proof (cases "length st > 70")
  case False then show ?thesis by (simp add: adjust_length_def)
next
  case True
  define cut where "cut = (if LastIndex (take 67 st) (CHR '' '') > 0
                            then LastIndex (take 67 st) (CHR '' '') + 1 else 66)"
  have pos: "0 < nat cut" by (simp add: cut_def)
  obtain y ys where st: "st = y # ys" using True by (cases st) auto
  obtain k where k: "nat cut = Suc k" using pos by (cases "nat cut") auto
  have "fst (adjust_length (st, sm)) = take (nat cut) st @ ''...''"
    using True by (simp add: adjust_length_def Let_def cut_def)
  then show ?thesis using st k by simp
qed

lemma adjust_line_breaks_combined:
  "fst (adjust_line_breaks (st, sm)) @ [newline] @ snd (adjust_line_breaks (st, sm))
   = st @ [newline] @ sm"
proof (cases "0 < Index st newline")
  case False then show ?thesis by (simp add: adjust_line_breaks_def Let_def)
next
  case True
  then have "st = take (nat (Index st newline)) st @ newline # drop (nat (Index st newline + 1)) st"
    using Index_decomp[of st newline] by simp
  then have "take (nat (Index st newline)) st @ [newline] @ drop (nat (Index st newline + 1)) st @ [newline] @ sm
             = st @ [newline] @ sm"
    by (metis append.assoc append_Cons append_Nil)
  then show ?thesis using True by (simp add: adjust_line_breaks_def Let_def)
qed

lemma adjust_length_subseq:
  "subseq (st @ [newline] @ sm)
     (fst (adjust_length (st, sm)) @ [newline] @ snd (adjust_length (st, sm)))"
proof (cases "length st > 70")
  case False then show ?thesis by (simp add: adjust_length_def)
next
  case True
  define cut where "cut = nat (if LastIndex (take 67 st) (CHR '' '') > 0
                            then LastIndex (take 67 st) (CHR '' '') + 1 else 66)"
  have out: "adjust_length (st, sm) = (take cut st @ ''...'', ''...'' @ drop cut st @ [newline] @ sm)"
    using True by (simp add: adjust_length_def Let_def cut_def)
  have "subseq (drop cut st @ [newline] @ sm)
          ((''...'' @ [newline] @ ''...'') @ (drop cut st @ [newline] @ sm))"
    by (rule list_emb_append2) simp
  then have "subseq (take cut st @ (drop cut st @ [newline] @ sm))
          (take cut st @ (''...'' @ [newline] @ ''...'') @ (drop cut st @ [newline] @ sm))"
    by (simp only: subseq_append')
  moreover have "take cut st @ (drop cut st @ [newline] @ sm) = st @ [newline] @ sm"
    by (simp only: append_assoc[symmetric] append_take_drop_id)
  ultimately have "subseq (st @ [newline] @ sm)
          (take cut st @ (''...'' @ [newline] @ ''...'') @ (drop cut st @ [newline] @ sm))"
    by (simp only:)
  then show ?thesis unfolding out by simp
qed

lemma choose_title_subseq:
  "subseq (t @ m) (fst (choose_title t m d) @ [newline] @ snd (choose_title t m d))"
proof -
  consider "t = ''''" "d \<noteq> ''''" | "t = ''''" "d = ''''" | "t \<noteq> ''''" by blast
  then show ?thesis
  proof cases
    case 1
    have "subseq m (d @ [newline] @ m)" by (rule list_emb_append2, rule list_emb_append2, simp)
    then show ?thesis using 1 by (simp add: choose_title_def)
  next
    case 2
    have "subseq m (m @ [newline])" by (rule subseq_rev_drop_many) simp
    then show ?thesis using 2 by (simp add: choose_title_def)
  next
    case 3
    have "subseq (t @ m) (t @ [newline] @ m)"
      by (simp only: subseq_append') (rule list_emb_append2, simp)
    then show ?thesis using 3 by (simp add: choose_title_def)
  qed
qed

lemma cleanTitle_100_x: "cleanTitleAndMessage (replicate 100 (CHR ''x'')) '''' d
  = (replicate 66 (CHR ''x'') @ ''...'', ''...'' @ replicate 34 (CHR ''x'') @ [newline])"
proof -
  have a: "choose_title (replicate 100 (CHR ''x'')) '''' d = (replicate 100 (CHR ''x''), '''')"
    by (simp add: choose_title_def)
  have b: "adjust_line_breaks (adjust_length (replicate 100 (CHR ''x''), ''''))
    = (replicate 66 (CHR ''x'') @ ''...'', ''...'' @ replicate 34 (CHR ''x'') @ [newline])"
    by code_simp
  show ?thesis by (simp only: cleanTitleAndMessage_def a b)
qed


lemma cleanTitle_line_break_iff:
  "newline \<in> set (fst (cleanTitleAndMessage t m d))
   \<longleftrightarrow> (\<exists>xs. fst (choose_title t m d) = newline # xs)"
proof -
  obtain st sm where c: "choose_title t m d = (st, sm)" by (cases "choose_title t m d")
  obtain st' sm' where a: "adjust_length (st, sm) = (st', sm')" by (cases "adjust_length (st, sm)")
  have "newline \<in> set (fst (adjust_line_breaks (st', sm'))) \<longleftrightarrow> (\<exists>xs. st' = newline # xs)"
    by (rule adjust_line_breaks_newline)
  also have "\<dots> \<longleftrightarrow> (\<exists>xs. st = newline # xs)"
    using adjust_length_head[of st sm newline] a by simp
  finally show ?thesis by (simp add: cleanTitleAndMessage_def c a)
qed

lemma cleanTitle_keeps_text:
  "subseq (t @ m)
     (fst (cleanTitleAndMessage t m d) @ [newline] @ snd (cleanTitleAndMessage t m d))"
proof -
  obtain st sm where c: "choose_title t m d = (st, sm)" by (cases "choose_title t m d")
  obtain st' sm' where a: "adjust_length (st, sm) = (st', sm')" by (cases "adjust_length (st, sm)")
  have 1: "subseq (t @ m) (st @ [newline] @ sm)"
    using choose_title_subseq[of t m d] c by simp
  have 2: "subseq (st @ [newline] @ sm) (st' @ [newline] @ sm')"
    using adjust_length_subseq[of st sm] a by simp
  have 3: "fst (adjust_line_breaks (st', sm')) @ [newline] @ snd (adjust_line_breaks (st', sm'))
           = st' @ [newline] @ sm'"
    by (rule adjust_line_breaks_combined)
  have "subseq (t @ m) (st' @ [newline] @ sm')"
    using 1 2 by (rule subseq_order.trans)
  then show ?thesis by (simp only: cleanTitleAndMessage_def c a 3)
qed

text \<open>
  C7. A title that begins with a line break keeps it: the cut at a line break is made
  only when the break is found at an index greater than zero. The title made of a line
  break and \<open>abc\<close>, with an empty message and an empty diff description, comes back
  unchanged.
\<close>

theorem C7_leading_line_break_stays_in_title:
  "cleanTitleAndMessage (newline # ''abc'') '''' '''' = (newline # ''abc'', '''')
   \<and> newline \<in> set (fst (cleanTitleAndMessage (newline # ''abc'') '''' ''''))"
  by (simp add: cleanTitleAndMessage_def choose_title_def adjust_length_def
      adjust_line_breaks_def Let_def newline_def)

subsection \<open>Emptiness of a Transform\<close>

text \<open>
  C8. \<^verbatim>\<open>IsEmpty\<close> of a Transform holds exactly when the transform, with its address and
  its kind tag erased, is the zero value: Syntax, AppVersion, Data, Structure, Config
  and Resources are inspected, the kind tag is not.
\<close>

theorem C8_Transform_IsEmpty:
  "Transform_IsEmpty q \<longleftrightarrow> q\<lparr>tf_path := '''', tf_Qri := ''''\<rparr> = Transform_zero"
  by (cases q) (auto simp: Transform_IsEmpty_def Transform_zero_def)

theorem C8_Transform_IsEmpty_witness:
  "Transform_IsEmpty ((NewTransformRef ''/X'' :: (unit, int, unit, unit) Transform)\<lparr>tf_Qri := ''tf''\<rparr>)
   \<and> \<not> Transform_IsEmpty ((Transform_zero :: (unit, int, unit, unit) Transform)\<lparr>tf_Syntax := ''sql''\<rparr>)"
  using C8_Transform_IsEmpty [of "(NewTransformRef ''/X'')\<lparr>tf_Qri := ''tf''\<rparr>"]
    C8_Transform_IsEmpty [of "Transform_zero\<lparr>tf_Syntax := ''sql''\<rparr>"]
  by (simp add: NewTransformRef_def Transform_zero_def)

text \<open>A transform whose only populated field is the kind tag counts as empty.\<close>

theorem C8_kind_tag_counterexample:
  "Transform_IsEmpty ((Transform_zero :: (unit, int, unit, unit) Transform)\<lparr>tf_Qri := ''tf''\<rparr>)
   \<and> tf_Qri ((Transform_zero :: (unit, int, unit, unit) Transform)\<lparr>tf_Qri := ''tf''\<rparr>) \<noteq> ''''"
  by (simp add: Transform_IsEmpty_def Transform_zero_def)

text \<open>
  The older revision looks at two fields only: a transform with nothing but a syntax
  is empty for it, and not for the newer one.
\<close>

lemma Transform_IsEmpty_v0_weaker: "Transform_IsEmpty q \<Longrightarrow> Transform_IsEmpty_v0 q"
  by (simp add: Transform_IsEmpty_def Transform_IsEmpty_v0_def)

lemma Transform_IsEmpty_v0_syntax:
  "Transform_IsEmpty_v0 (Transform_zero\<lparr>tf_Syntax := ''sql''\<rparr>)
   \<and> \<not> Transform_IsEmpty (Transform_zero\<lparr>tf_Syntax := ''sql''\<rparr>)"
  by (simp add: Transform_IsEmpty_def Transform_IsEmpty_v0_def Transform_zero_def)

subsection \<open>The two forms of the encoding\<close>

text \<open>A Transform is written as its bare address exactly when it is empty and bound.\<close>

lemma Transform_MarshalJSONObject_not_string:
  "Transform_MarshalJSONObject ext dsenc q \<noteq> Inr (JStr k)"
  by (auto simp: Transform_MarshalJSONObject_def json_Marshal_u_transform_def Let_def
      split: option.splits sum.splits)

lemma Transform_MarshalJSON_bare_iff:
  "Transform_MarshalJSON ext dsenc q = Inr (JStr k)
   \<longleftrightarrow> tf_path q \<noteq> '''' \<and> Transform_IsEmpty q \<and> JStr k = Key_MarshalJSON (tf_path q)"
  using Transform_MarshalJSONObject_not_string[of ext dsenc q k]
  by (auto simp: Transform_MarshalJSON_def)

text \<open>
  What decides the form for a Structure: the address, the encoding and the schema. The
  other fields that \<^verbatim>\<open>IsEmpty\<close> inspects play no part.
\<close>

lemma Structure_MarshalJSON_bare_iff:
  "Structure_MarshalJSON ext s = Inr (JStr k)
   \<longleftrightarrow> st_path s \<noteq> '''' \<and> st_Encoding s = '''' \<and> st_Schema s = None
       \<and> JStr k = Key_MarshalJSON (st_path s)"
  by (auto simp: Structure_MarshalJSON_def json_Marshal_u_structure_def
      Let_def split: option.splits)

text \<open>
  C1. A Structure bound to the address \<open>/X\<close> that also carries a checksum is not empty,
  and is still written as the bare address: the checksum is not in the encoding.
\<close>

theorem C1_Structure_with_checksum_written_as_address:
  "Structure_MarshalJSON ext ((Structure_zero ext)\<lparr>st_path := ''/X'', st_Checksum := ''abc''\<rparr>)
     = Inr (JStr ''/X'')
   \<and> \<not> Structure_IsEmpty ext ((Structure_zero ext)\<lparr>st_path := ''/X'', st_Checksum := ''abc''\<rparr>)"
  by (simp add: Structure_MarshalJSON_def Structure_IsEmpty_def Structure_zero_def
      Key_MarshalJSON_def json_Marshal_string_def rune_size_def)

subsection \<open>Decoding what was encoded\<close>

text \<open>A string of valid UTF-8 is written as it is, and read back.\<close>

lemma valid_replace_invalid: "valid_from k s \<Longrightarrow> replace_invalid k s = s"
  by (induction k s rule: replace_invalid.induct) (auto split: nat.splits)

lemma json_string_roundtrip:
  "utf8_ValidString s \<Longrightarrow> json_Unmarshal_string (json_Marshal_string s) = Some s"
  by (simp add: utf8_ValidString_def json_Marshal_string_def valid_replace_invalid)

lemma json_Marshal_string_valid:
  "utf8_ValidString s \<Longrightarrow> json_Marshal_string s = JStr s"
  by (simp add: utf8_ValidString_def json_Marshal_string_def valid_replace_invalid)

lemma member_omitempty_hit [simp]:
  "member (omitempty name z j @ rest) name dec zero
     = (if z then member rest name dec zero else dec j)"
  by (simp add: member_def omitempty_def)

lemma member_omitempty_miss [simp]:
  "name' \<noteq> name \<Longrightarrow> member (omitempty name z j @ rest) name' dec zero = member rest name' dec zero"
  by (simp add: member_def omitempty_def)

lemma member_omitempty_only [simp]:
  "member (omitempty name z j) name' dec zero = (if name' = name \<and> \<not> z then dec j else Some zero)"
  by (simp add: member_def omitempty_def)

lemma member_Cons_hit [simp]:
  "member ((name, j) # rest) name dec zero = dec j"
  by (simp add: member_def)

lemma member_Cons_miss [simp]:
  "name' \<noteq> name \<Longrightarrow> member ((name, j) # rest) name' dec zero = member rest name' dec zero"
  by (simp add: member_def)

lemma member_Nil [simp]: "member [] name dec zero = Some zero"
  by (simp add: member_def)

lemma DataFormat_json_roundtrip:
  "f \<in> set defined_DataFormats \<Longrightarrow> DataFormat_MarshalJSON f = Some j
   \<Longrightarrow> DataFormat_UnmarshalJSON j = Some f"
  by (auto simp: defined_DataFormats_def DataFormat_MarshalJSON_def DataFormat_UnmarshalJSON_def
      ParseDataFormatString_def DataFormat_String_def
      DataFormat_names_def DataFormat_parse_table_def DataFormat_defs split: if_splits)

lemma Structure_roundtrip_object:
  assumes enc: "Structure_MarshalJSON ext v = Inr j"
    and obj: "\<not> (st_path v \<noteq> '''' \<and> st_Encoding v = '''' \<and> st_Schema v = None)"
    and fmt: "st_Format v \<in> set defined_DataFormats"
    and strs: "utf8_ValidString (st_Checksum v)" "utf8_ValidString (st_Encoding v)"
    and kind: "Kind_UnmarshalJSON ext
                 (Kind_MarshalJSON ext (if st_Kind v = '''' then KindStructure ext else st_Kind v))
               = Some (if st_Kind v = '''' then KindStructure ext else st_Kind v)"
    and comp: "compression_UnmarshalJSON ext (compression_MarshalJSON ext (st_Compression v)) = Some (st_Compression v)"
    and sch: "\<And>s. st_Schema v = Some s \<Longrightarrow>
                schema_MarshalJSON ext s \<noteq> JNull \<and>
                schema_UnmarshalJSON ext (schema_MarshalJSON ext s) = Some s"
    and fc: "\<And>c. st_FormatConfig v = Some c \<Longrightarrow>
                FormatConfig_Map ext c \<noteq> [] \<and>
                ParseFormatConfigMap ext (st_Format v) (FormatConfig_Map ext c) = Some (Some c)"
  shows "Structure_UnmarshalJSON ext j
         = Inr (v\<lparr>st_path := '''',
                  st_Kind := (if st_Kind v = '''' then KindStructure ext else st_Kind v)\<rparr>)"
proof -
  obtain fj where fj: "DataFormat_MarshalJSON (st_Format v) = Some fj"
    using enc obj by (auto simp: Structure_MarshalJSON_def json_Marshal_u_structure_def Let_def split: option.splits)
  have fdec: "DataFormat_UnmarshalJSON fj = Some (st_Format v)"
    using DataFormat_json_roundtrip[OF fmt fj] .
  define kvs where "kvs =
            (omitempty ''checksum'' (st_Checksum v = '''') (json_Marshal_string (st_Checksum v)) @
             omitempty ''compression'' (st_Compression v = compression_None ext)
               (compression_MarshalJSON ext (st_Compression v)) @
             omitempty ''encoding'' (st_Encoding v = '''') (json_Marshal_string (st_Encoding v)) @
             omitempty ''entries'' (st_Entries v = 0) (JNum (st_Entries v)) @
             [(''format'', fj)] @
             (case st_FormatConfig v of
                None \<Rightarrow> []
              | Some c \<Rightarrow> omitempty ''formatConfig'' (FormatConfig_Map ext c = []) (JObj (FormatConfig_Map ext c))) @
             [(''kind'', Kind_MarshalJSON ext (if st_Kind v = '''' then KindStructure ext else st_Kind v))] @
             omitempty ''length'' (st_Length v = 0) (JNum (st_Length v)) @
             (case st_Schema v of
                None \<Rightarrow> []
              | Some sch \<Rightarrow> [(''schema'', schema_MarshalJSON ext sch)]))"
  have j: "j = JObj kvs"
    using enc obj fj
    by (auto simp: Structure_MarshalJSON_def json_Marshal_u_structure_def Let_def kvs_def
        split: option.splits)
  have s1: "json_Unmarshal_string (json_Marshal_string (st_Checksum v)) = Some (st_Checksum v)"
    and s3: "json_Unmarshal_string (json_Marshal_string (st_Encoding v)) = Some (st_Encoding v)"
    using strs by (simp_all add: json_string_roundtrip)
  have m1: "member kvs ''checksum'' json_Unmarshal_string '''' = Some (st_Checksum v)"
    using s1 by (cases "st_FormatConfig v"; cases "st_Schema v") (simp_all add: kvs_def)
  have m2: "member kvs ''compression'' (compression_UnmarshalJSON ext) (compression_None ext) = Some (st_Compression v)"
    using comp by (cases "st_FormatConfig v"; cases "st_Schema v") (simp_all add: kvs_def)
  have m3: "member kvs ''encoding'' json_Unmarshal_string '''' = Some (st_Encoding v)"
    using s3 by (cases "st_FormatConfig v"; cases "st_Schema v") (simp_all add: kvs_def)
  have m4: "member kvs ''entries'' json_Unmarshal_int 0 = Some (st_Entries v)"
    by (cases "st_FormatConfig v"; cases "st_Schema v") (simp_all add: kvs_def)
  have m5: "member kvs ''format'' DataFormat_UnmarshalJSON UnknownDataFormat = Some (st_Format v)"
    using fdec by (simp add: kvs_def)
  have m6: "member kvs ''formatConfig'' json_Unmarshal_map None
            = Some (map_option (FormatConfig_Map ext) (st_FormatConfig v))"
    using fc by (cases "st_FormatConfig v"; cases "st_Schema v") (simp_all add: kvs_def)
  have m7: "member kvs ''kind'' (Kind_UnmarshalJSON ext) ''''
            = Some (if st_Kind v = '''' then KindStructure ext else st_Kind v)"
    using kind by (cases "st_FormatConfig v") (simp_all add: kvs_def)
  have m8: "member kvs ''length'' json_Unmarshal_int 0 = Some (st_Length v)"
    by (cases "st_FormatConfig v"; cases "st_Schema v") (simp_all add: kvs_def)
  have m9: "member kvs ''schema''
               (\<lambda>j. if j = JNull then Some None else map_option Some (schema_UnmarshalJSON ext j)) None
            = Some (st_Schema v)"
    using sch by (cases "st_FormatConfig v"; cases "st_Schema v") (simp_all add: kvs_def)
  have u: "json_Unmarshal_u_structure ext j =
      Some \<lparr>u_Checksum = st_Checksum v, u_Compression = st_Compression v, u_Encoding = st_Encoding v,
                  u_Entries = st_Entries v, u_Format = st_Format v,
                  u_FormatConfig = map_option (FormatConfig_Map ext) (st_FormatConfig v),
                  u_Kind = (if st_Kind v = '''' then KindStructure ext else st_Kind v),
                  u_Length = st_Length v, u_Schema = st_Schema v\<rparr>"
    unfolding json_Unmarshal_u_structure_def j
    by (simp only: json.case m1 m2 m3 m4 m5 m6 m7 m8 m9 bind.bind_lunit)
  show ?thesis
    unfolding Structure_UnmarshalJSON_def u
    using fc by (cases "st_FormatConfig v") (simp_all add: j)
qed

lemma Structure_roundtrip_reference:
  assumes "st_path v \<noteq> ''''" and "Structure_IsEmpty ext v" and "utf8_ValidString (st_path v)"
  shows "Structure_MarshalJSON ext v = Inr (JStr (st_path v))"
    and "Structure_UnmarshalJSON ext (JStr (st_path v))
         = Inr ((Structure_zero ext)\<lparr>st_path := NewKey ext (st_path v)\<rparr>)"
  using assms
  by (simp_all add: Structure_MarshalJSON_def Structure_UnmarshalJSON_def Structure_IsEmpty_def
      Key_MarshalJSON_def json_Marshal_string_valid)

text \<open>
  C2. Let the encoding of a Structure succeed, with a defined format, a checksum and an
  encoding name that are valid UTF-8, the external coders of compression, schema and
  format configuration inverse to each other on its values, and let it not be a
  non-empty Structure written as a bare address. If it is empty and bound to \<open>p\<close>, with
  \<open>p\<close> valid UTF-8, the encoding is the JSON string \<open>p\<close> and decoding yields an empty
  Structure whose address is \<open>NewKey p\<close>. Otherwise, when the coding of its kind tag (of
  \<open>KindStructure\<close> when it has none) is read back as written, decoding yields the
  Structure with its address cleared and an empty kind tag replaced by
  \<open>KindStructure\<close>.
\<close>

theorem C2_Structure_roundtrip:
  assumes enc: "Structure_MarshalJSON ext v = Inr j"
    and bare: "st_path v \<noteq> '''' \<and> st_Encoding v = '''' \<and> st_Schema v = None
               \<longrightarrow> Structure_IsEmpty ext v"
    and fmt: "st_Format v \<in> set defined_DataFormats"
    and path: "Structure_IsEmpty ext v \<longrightarrow> utf8_ValidString (st_path v)"
    and strs: "utf8_ValidString (st_Checksum v) \<and> utf8_ValidString (st_Encoding v)"
    and kind: "\<not> (st_path v \<noteq> '''' \<and> Structure_IsEmpty ext v) \<longrightarrow>
               Kind_UnmarshalJSON ext
                 (Kind_MarshalJSON ext (if st_Kind v = '''' then KindStructure ext else st_Kind v))
               = Some (if st_Kind v = '''' then KindStructure ext else st_Kind v)"
    and comp: "compression_UnmarshalJSON ext (compression_MarshalJSON ext (st_Compression v))
               = Some (st_Compression v)"
    and sch: "\<And>s. st_Schema v = Some s \<Longrightarrow>
                schema_MarshalJSON ext s \<noteq> JNull \<and>
                schema_UnmarshalJSON ext (schema_MarshalJSON ext s) = Some s"
    and fc: "\<And>c. st_FormatConfig v = Some c \<Longrightarrow>
                FormatConfig_Map ext c \<noteq> [] \<and>
                ParseFormatConfigMap ext (st_Format v) (FormatConfig_Map ext c) = Some (Some c)"
  shows "(st_path v \<noteq> '''' \<and> Structure_IsEmpty ext v \<longrightarrow>
            j = JStr (st_path v) \<and>
            (\<exists>w. Structure_UnmarshalJSON ext j = Inr w \<and> Structure_IsEmpty ext w \<and>
                 Structure_Path w = NewKey ext (st_path v)))
       \<and> (\<not> (st_path v \<noteq> '''' \<and> Structure_IsEmpty ext v) \<longrightarrow>
            Structure_UnmarshalJSON ext j
            = Inr (v\<lparr>st_path := '''',
                     st_Kind := (if st_Kind v = '''' then KindStructure ext else st_Kind v)\<rparr>))"
proof (cases "st_path v \<noteq> '''' \<and> Structure_IsEmpty ext v")
  case True
  have vp: "utf8_ValidString (st_path v)" using path True by simp
  have j: "j = JStr (st_path v)"
    using Structure_roundtrip_reference(1)[of v ext] True vp enc by simp
  have "Structure_UnmarshalJSON ext j = Inr ((Structure_zero ext)\<lparr>st_path := NewKey ext (st_path v)\<rparr>)"
    using Structure_roundtrip_reference(2)[of v ext] True vp j by simp
  moreover have "Structure_IsEmpty ext ((Structure_zero ext)\<lparr>st_path := NewKey ext (st_path v)\<rparr>)"
    by (simp add: Structure_IsEmpty_def Structure_zero_def)
  moreover have "Structure_Path ((Structure_zero ext)\<lparr>st_path := NewKey ext (st_path v)\<rparr>)
                 = NewKey ext (st_path v)"
    by (simp add: Structure_Path_def)
  ultimately show ?thesis using True j by blast
next
  case False
  then have obj: "\<not> (st_path v \<noteq> '''' \<and> st_Encoding v = '''' \<and> st_Schema v = None)"
    using bare by blast
  have s: "utf8_ValidString (st_Checksum v)" "utf8_ValidString (st_Encoding v)" using strs by simp_all
  have k: "Kind_UnmarshalJSON ext
                 (Kind_MarshalJSON ext (if st_Kind v = '''' then KindStructure ext else st_Kind v))
               = Some (if st_Kind v = '''' then KindStructure ext else st_Kind v)"
    using kind False by blast
  show ?thesis
    using False Structure_roundtrip_object[OF enc obj fmt s k comp sch fc] by blast
qed

theorem C2_Structure_roundtrip_witness:
  "Structure_MarshalJSON plain_externals
     ((Structure_zero plain_externals)\<lparr>st_Checksum := ''abc'', st_Format := CsvDataFormat\<rparr>)
   = Inr (JObj [(''checksum'', JStr ''abc''), (''format'', JStr ''csv''), (''kind'', JStr ''qri:st:0'')])
   \<and> Structure_UnmarshalJSON plain_externals
       (JObj [(''checksum'', JStr ''abc''), (''format'', JStr ''csv''), (''kind'', JStr ''qri:st:0'')])
     = Inr ((Structure_zero plain_externals)
              \<lparr>st_Checksum := ''abc'', st_Format := CsvDataFormat, st_Kind := ''qri:st:0''\<rparr>)
   \<and> Structure_MarshalJSON plain_externals (NewStructureRef plain_externals ''/X'') = Inr (JStr ''/X'')
   \<and> (\<exists>w. Structure_UnmarshalJSON plain_externals (JStr ''/X'') = Inr w \<and>
           Structure_IsEmpty plain_externals w \<and> Structure_Path w = ''/X'')"
proof -
  let ?v = "(Structure_zero plain_externals)\<lparr>st_Checksum := ''abc'', st_Format := CsvDataFormat\<rparr>"
  let ?j = "JObj [(''checksum'', JStr ''abc''), (''format'', JStr ''csv''), (''kind'', JStr ''qri:st:0'')]"
  let ?r = "NewStructureRef plain_externals ''/X''"
  have e1: "Structure_MarshalJSON plain_externals ?v = Inr ?j"
    by (simp add: Structure_MarshalJSON_def json_Marshal_u_structure_def Structure_zero_def
        plain_externals_def DataFormat_MarshalJSON_def DataFormat_String_def DataFormat_names_def
        DataFormat_defs omitempty_def json_Marshal_string_def rune_size_def)
  have e2: "Structure_MarshalJSON plain_externals ?r = Inr (JStr ''/X'')"
    by (simp add: Structure_MarshalJSON_def NewStructureRef_def Structure_zero_def
        Key_MarshalJSON_def json_Marshal_string_def rune_size_def)
  have kk: "Kind_UnmarshalJSON plain_externals (Kind_MarshalJSON plain_externals ''qri:st:0'')
      = Some ''qri:st:0''"
    by (simp add: plain_externals_def json_Marshal_string_def rune_size_def)
  have h: "st_path ?v = ''''" "st_Kind ?v = ''''" "st_Schema ?v = None" "st_FormatConfig ?v = None"
      "st_Format ?v \<in> set defined_DataFormats"
      "compression_UnmarshalJSON plain_externals
         (compression_MarshalJSON plain_externals (st_Compression ?v)) = Some (st_Compression ?v)"
      "utf8_ValidString (st_path ?v)" "utf8_ValidString (st_Checksum ?v)"
      "utf8_ValidString (st_Encoding ?v)"
    by (simp_all add: Structure_zero_def plain_externals_def defined_DataFormats_def
        utf8_ValidString_def rune_size_def)
  have hr: "st_path ?r = ''/X''" "Structure_IsEmpty plain_externals ?r"
      "st_Schema ?r = None" "st_FormatConfig ?r = None" "st_Kind ?r = ''qri:st:0''"
      "st_Format ?r \<in> set defined_DataFormats"
      "compression_UnmarshalJSON plain_externals
         (compression_MarshalJSON plain_externals (st_Compression ?r)) = Some (st_Compression ?r)"
      "utf8_ValidString (st_path ?r)" "utf8_ValidString (st_Checksum ?r)"
      "utf8_ValidString (st_Encoding ?r)"
    by (simp_all add: NewStructureRef_def Structure_IsEmpty_def Structure_zero_def
        plain_externals_def defined_DataFormats_def DataFormat_defs
        utf8_ValidString_def rune_size_def)
  have k: "KindStructure plain_externals = ''qri:st:0''" "NewKey plain_externals ''/X'' = ''/X''"
    by (simp_all add: plain_externals_def)
  have u1: "Structure_UnmarshalJSON plain_externals ?j = Inr (?v\<lparr>st_path := '''', st_Kind := ''qri:st:0''\<rparr>)"
    using C2_Structure_roundtrip [of plain_externals ?v ?j, OF e1] h k kk by simp
  have u2: "\<exists>w. Structure_UnmarshalJSON plain_externals (JStr ''/X'') = Inr w \<and>
           Structure_IsEmpty plain_externals w \<and> Structure_Path w = ''/X''"
    using C2_Structure_roundtrip [of plain_externals ?r "JStr ''/X''", OF e2] hr k kk by simp
  have "?v\<lparr>st_path := '''', st_Kind := ''qri:st:0''\<rparr>
        = (Structure_zero plain_externals)
              \<lparr>st_Checksum := ''abc'', st_Format := CsvDataFormat, st_Kind := ''qri:st:0''\<rparr>"
    by (simp add: Structure_zero_def)
  then show ?thesis using e1 e2 u1 u2 by simp
qed

text \<open>
  A Structure with no kind tag does not come back field for field: it is written with
  the kind tag \<open>KindStructure\<close>, and read back with it.
\<close>

theorem C2_kind_tag_counterexample:
  "Structure_MarshalJSON plain_externals ((Structure_zero plain_externals)\<lparr>st_Format := CsvDataFormat\<rparr>)
   = Inr (JObj [(''format'', JStr ''csv''), (''kind'', JStr ''qri:st:0'')])
   \<and> Structure_UnmarshalJSON plain_externals
       (JObj [(''format'', JStr ''csv''), (''kind'', JStr ''qri:st:0'')])
     = Inr ((Structure_zero plain_externals)\<lparr>st_Format := CsvDataFormat, st_Kind := ''qri:st:0''\<rparr>)
   \<and> (Structure_zero plain_externals)\<lparr>st_Format := CsvDataFormat, st_Kind := ''qri:st:0''\<rparr>
     \<noteq> (Structure_zero plain_externals)\<lparr>st_Format := CsvDataFormat\<rparr>"
  by (simp add: Structure_MarshalJSON_def json_Marshal_u_structure_def Structure_zero_def
      Structure_UnmarshalJSON_def json_Unmarshal_u_structure_def member_def
      DataFormat_UnmarshalJSON_def ParseDataFormatString_def DataFormat_parse_table_def
      plain_externals_def DataFormat_MarshalJSON_def DataFormat_String_def DataFormat_names_def
      DataFormat_defs omitempty_def json_Marshal_string_def rune_size_def)

text \<open>
  Nor does a string with a byte that is not UTF-8: the checksum that is the one byte FF
  is written as the replacement character, and read back as its three bytes.
\<close>

lemma Structure_invalid_byte_not_restored:
  "Structure_MarshalJSON plain_externals
     ((Structure_zero plain_externals)\<lparr>st_Checksum := [CHR 0xFF], st_Format := CsvDataFormat\<rparr>)
   = Inr (JObj [(''checksum'', JStr [CHR 0xEF, CHR 0xBF, CHR 0xBD]), (''format'', JStr ''csv''),
                (''kind'', JStr ''qri:st:0'')])
   \<and> Structure_UnmarshalJSON plain_externals
       (JObj [(''checksum'', JStr [CHR 0xEF, CHR 0xBF, CHR 0xBD]), (''format'', JStr ''csv''),
              (''kind'', JStr ''qri:st:0'')])
     = Inr ((Structure_zero plain_externals)
              \<lparr>st_Checksum := [CHR 0xEF, CHR 0xBF, CHR 0xBD], st_Format := CsvDataFormat,
               st_Kind := ''qri:st:0''\<rparr>)"
  by (simp add: Structure_MarshalJSON_def json_Marshal_u_structure_def Structure_zero_def
      Structure_UnmarshalJSON_def json_Unmarshal_u_structure_def member_def
      DataFormat_UnmarshalJSON_def ParseDataFormatString_def DataFormat_parse_table_def
      plain_externals_def DataFormat_MarshalJSON_def DataFormat_String_def DataFormat_names_def
      DataFormat_defs omitempty_def json_Marshal_string_def rune_size_def RuneError_bytes_def)

subsection \<open>Loading a dataset\<close>

lemma Dataset_Assign_ref:
  assumes "h_Dataset h ds = Some d" and "ds \<noteq> h_next h"
  shows "h_Dataset
           (Dataset_Assign ds [Some (fst (new_Dataset (dataset_NewDatasetRef path) h))]
              (snd (new_Dataset (dataset_NewDatasetRef path) h))) ds
         = Some (d\<lparr>ds_path := (if path \<noteq> '''' then path else ds_path d)\<rparr>)"
  using assms
  by (cases d)
    (auto simp: Dataset_Assign_def Dataset_Assign1_def new_Dataset_def dataset_NewDatasetRef_def
      Dataset_zero_def merge_slot_def split: option.splits)

lemma decode_and_bind_cases:
  assumes wf: "\<forall>data ds h1. UnmarshalDataset h data = Inr (ds, h1)
                 \<longrightarrow> ds \<noteq> h_next h1 \<and> h_Dataset h1 ds \<noteq> None"
  shows "(\<forall>e. decode_and_bind UnmarshalDataset h path data = Inl e
              \<longleftrightarrow> (\<exists>err. UnmarshalDataset h data = Inl err \<and> e = ErrUnmarshalingDataset err))
       \<and> (\<forall>ds h'. decode_and_bind UnmarshalDataset h path data = Inr (ds, h')
              \<longrightarrow> (\<exists>d h1. UnmarshalDataset h data = Inr (ds, h1) \<and> h_Dataset h1 ds = Some d \<and>
                     h_Dataset h' ds = Some (d\<lparr>ds_path := (if path \<noteq> '''' then path else ds_path d)\<rparr>)))"
proof (cases "UnmarshalDataset h data")
  case (Inl err)
  then show ?thesis by (auto simp: decode_and_bind_def)
next
  case (Inr p)
  obtain ds h1 where p: "p = (ds, h1)" by (cases p)
  have "ds \<noteq> h_next h1 \<and> h_Dataset h1 ds \<noteq> None"
    using wf Inr p by blast
  then obtain d where d: "h_Dataset h1 ds = Some d" and n: "ds \<noteq> h_next h1"
    by auto
  have "decode_and_bind UnmarshalDataset h path data =
        Inr (ds, Dataset_Assign ds [Some (fst (new_Dataset (dataset_NewDatasetRef path) h1))]
              (snd (new_Dataset (dataset_NewDatasetRef path) h1)))"
    using Inr p by (simp add: decode_and_bind_def split: prod.splits)
  then show ?thesis using Dataset_Assign_ref[OF d n, of path] Inr p d by auto
qed

lemma decode_and_bind_errors:
  "decode_and_bind UnmarshalDataset h path data \<noteq> Inl (ErrGettingFileBytes err)"
  "decode_and_bind UnmarshalDataset h path data = Inl (ErrUnmarshalingDataset err)
   \<longleftrightarrow> UnmarshalDataset h data = Inl err"
  by (auto simp: decode_and_bind_def split: sum.splits prod.splits)

text \<open>
  C4. The store is asked once, and a second time exactly when the first answer is an
  error or has no bytes. The load fails with the store error exactly when that second
  answer is an error. In every other case the bytes last fetched (possibly none, when
  the second answer is empty without an error) go to the decoder: the load fails with
  the decoding error exactly when the decoder fails, and otherwise returns the decoded
  dataset with its address set to the key it was fetched under (when that key is not
  empty).
\<close>

theorem C4_LoadDatasetRefs:
  assumes wf: "\<forall>data ds h1. UnmarshalDataset h data = Inr (ds, h1)
                 \<longrightarrow> ds \<noteq> h_next h1 \<and> h_Dataset h1 ds \<noteq> None"
  shows
    "let path = PackageKeypath address;
         retry = (case get 0 path of Inl err \<Rightarrow> True | Inr data \<Rightarrow> data = []);
         fetched = (if retry then get 1 path else get 0 path);
         (res, calls) = LoadDatasetRefs get PackageKeypath UnmarshalDataset h address
     in calls = (if retry then 2 else 1)
        \<and> (\<forall>err. res = Inl (ErrGettingFileBytes err) \<longleftrightarrow> fetched = Inl err)
        \<and> (\<forall>data. fetched = Inr data \<longrightarrow>
              (\<forall>err. res = Inl (ErrUnmarshalingDataset err) \<longleftrightarrow> UnmarshalDataset h data = Inl err)
              \<and> (\<forall>ds h'. res = Inr (ds, h') \<longrightarrow>
                    (\<exists>d h1. UnmarshalDataset h data = Inr (ds, h1) \<and> h_Dataset h1 ds = Some d \<and>
                       h_Dataset h' ds
                       = Some (d\<lparr>ds_path := (if path \<noteq> '''' then path else ds_path d)\<rparr>))))"
proof -
  define path where "path = PackageKeypath address"
  define retry where "retry = (case get 0 path of Inl err \<Rightarrow> True | Inr data \<Rightarrow> data = [])"
  define fetched where "fetched = (if retry then get 1 path else get 0 path)"
  define out where "out = LoadDatasetRefs get PackageKeypath UnmarshalDataset h address"
  have out_eq: "out = (case fetched of
                         Inl err \<Rightarrow> Inl (ErrGettingFileBytes err)
                       | Inr data \<Rightarrow> decode_and_bind UnmarshalDataset h path data,
                       if retry then 2 else 1)"
    unfolding out_def LoadDatasetRefs_def path_def[symmetric] Let_def fetched_def retry_def
    by (simp split: sum.splits)
  have bind: "\<exists>d h1. UnmarshalDataset h data = Inr (ds, h1) \<and> h_Dataset h1 ds = Some d \<and>
                 h_Dataset h' ds = Some (d\<lparr>ds_path := (if path \<noteq> '''' then path else ds_path d)\<rparr>)"
    if "decode_and_bind UnmarshalDataset h path data = Inr (ds, h')" for data ds h'
    using decode_and_bind_cases[of UnmarshalDataset h path data] wf that by blast
  have "snd out = (if retry then 2 else 1)
        \<and> (\<forall>err. fst out = Inl (ErrGettingFileBytes err) \<longleftrightarrow> fetched = Inl err)
        \<and> (\<forall>data. fetched = Inr data \<longrightarrow>
              (\<forall>err. fst out = Inl (ErrUnmarshalingDataset err) \<longleftrightarrow> UnmarshalDataset h data = Inl err)
              \<and> (\<forall>ds h'. fst out = Inr (ds, h') \<longrightarrow>
                    (\<exists>d h1. UnmarshalDataset h data = Inr (ds, h1) \<and> h_Dataset h1 ds = Some d \<and>
                       h_Dataset h' ds
                       = Some (d\<lparr>ds_path := (if path \<noteq> '''' then path else ds_path d)\<rparr>))))"
  proof (cases fetched)
    case (Inl e)
    then show ?thesis by (simp add: out_eq)
  next
    case (Inr data)
    then show ?thesis
      using decode_and_bind_errors[of UnmarshalDataset h path data] bind[of data]
      by (simp add: out_eq)
  qed
  then show ?thesis
    unfolding Let_def path_def[symmetric] retry_def[symmetric] fetched_def[symmetric]
      out_def[symmetric]
    by (simp add: case_prod_beta)
qed

text \<open>
  When both answers are empty without an error, the load does not fail with the store
  error: the empty bytes reach the decoder, and its failure is the result.
\<close>

theorem C4_two_empty_reads_counterexample:
  "fst (LoadDatasetRefs (\<lambda>n k. Inr []) (\<lambda>k. k)
          (\<lambda>h data. if data = [] then Inl ''unexpected end of JSON input'' else Inr (0, h))
          empty_heap ''/x'')
   = Inl (ErrUnmarshalingDataset ''unexpected end of JSON input'')
   \<and> snd (LoadDatasetRefs (\<lambda>n k. Inr []) (\<lambda>k. k)
          (\<lambda>h data. if data = [] then Inl ''unexpected end of JSON input'' else Inr (0, h))
          empty_heap ''/x'') = 2"
  by (simp add: LoadDatasetRefs_def decode_and_bind_def)

lemma fresh_decoder_allocates: "\<exists>h'. decode_and_bind fresh_decoder empty_heap ''/x'' ''{}'' = Inr (0, h')"
  by (simp add: decode_and_bind_def fresh_decoder_def new_Dataset_def empty_heap_def split: prod.splits)

theorem C4_LoadDatasetRefs_witness:
  "snd (LoadDatasetRefs flaky_get (\<lambda>k. k) fresh_decoder empty_heap ''/x'') = 2
   \<and> (\<exists>h' d. fst (LoadDatasetRefs flaky_get (\<lambda>k. k) fresh_decoder empty_heap ''/x'') = Inr (0, h')
         \<and> h_Dataset h' 0 = Some d \<and> ds_path d = ''/x'')"
proof -
  have wf: "\<forall>data ds h1. fresh_decoder empty_heap data = Inr (ds, h1)
                 \<longrightarrow> ds \<noteq> h_next h1 \<and> h_Dataset h1 ds \<noteq> None"
    by (auto simp: new_Dataset_def fresh_decoder_def)
  have run: "LoadDatasetRefs flaky_get (\<lambda>k. k) fresh_decoder empty_heap ''/x''
             = (decode_and_bind fresh_decoder empty_heap ''/x'' ''{}'', 2)"
    by (simp add: LoadDatasetRefs_def flaky_get_def)
  obtain h' where dec: "decode_and_bind fresh_decoder empty_heap ''/x'' ''{}'' = Inr (0, h')"
    using fresh_decoder_allocates by blast
  have g: "flaky_get 0 ''/x'' = Inr []" "flaky_get (Suc 0) ''/x'' = Inr ''{}''"
    by (simp_all add: flaky_get_def)
  have "\<exists>d h1. fresh_decoder empty_heap ''{}'' = Inr (0, h1) \<and> h_Dataset h1 0 = Some d \<and>
           h_Dataset h' 0 = Some (d\<lparr>ds_path := ''/x''\<rparr>)"
    using C4_LoadDatasetRefs [of fresh_decoder empty_heap "\<lambda>k. k" "''/x''" flaky_get, OF wf]
    by (simp add: Let_def run dec g)
  then obtain d where "h_Dataset h' 0 = Some (d\<lparr>ds_path := ''/x''\<rparr>)"
    by blast
  then have "h_Dataset h' 0 = Some (d\<lparr>ds_path := ''/x''\<rparr>) \<and> ds_path (d\<lparr>ds_path := ''/x''\<rparr>) = ''/x''"
    by simp
  then show ?thesis unfolding run dec by auto
qed

subsection \<open>Writing a dataset\<close>

lemma added_names_append [simp]: "added_names (xs @ ys) = added_names xs @ added_names ys"
  by (induction xs rule: added_names.induct) auto

lemma reported_names_append [simp]: "reported_names (xs @ ys) = reported_names xs @ reported_names ys"
  by (induction xs rule: reported_names.induct) auto

lemma failed_names_append [simp]: "failed_names (xs @ ys) = failed_names xs @ failed_names ys"
  by (induction xs rule: failed_names.induct) auto

lemma last_key_append [simp]: "last_key k (xs @ ys) = last_key (last_key k xs) ys"
  by (induction k xs rule: last_key.induct) auto


lemma second_phases_append [simp]:
  "second_phases d (xs @ ys) = second_phases d xs @ second_phases d ys"
  by (simp add: second_phases_def)

lemma second_phases_Cons [simp]: "second_phases d (x # xs) = second_phase d x @ second_phases d xs"
  by (simp add: second_phases_def)

lemma second_phases_Nil [simp]: "second_phases d [] = []"
  by (simp add: second_phases_def)


lemma second_phase_plain [simp]:
  "second_phase d PackageFileDataset = []"
  "second_phase d PackageFileStructure = []"
  "second_phase d PackageFileMeta = []"
  "second_phase d PackageFileCommit = []"
  "second_phase d PackageFileTransform = []"
  "second_phase d PackageFileViz = []"
  "second_phase d d = []"
  by (simp_all add: second_phase_def file_names)



lemma owed_append [simp]: "owed d (xs @ ys) = owed d xs + owed d ys"
  by (simp add: owed_def)

lemma owed_Cons [simp]: "owed d (x # xs) = weight d x + owed d xs"
  by (simp add: owed_def)

lemma owed_Nil [simp]: "owed d [] = 0"
  by (simp add: owed_def)






text \<open>The steps of the event loop keep the count and the files of the save.\<close>

lemma same_adder_refl [simp]: "same_adder s s"
  by (simp add: same_adder_def)

lemma same_adder_panics [simp]: "same_adder s (panics s)"
  by (simp add: same_adder_def panics_def)

lemma same_adder_fails [simp]: "same_adder s (fails e s)"
  by (simp add: same_adder_def fails_def)

lemma same_adder_heap [simp]: "same_adder s (s\<lparr>w_heap := h\<rparr>)"
  by (simp add: same_adder_def)

lemma same_adder_trans: "same_adder s s' \<Longrightarrow> same_adder s' s'' \<Longrightarrow> same_adder s s''"
  by (auto simp: same_adder_def)

lemma same_adder_upd_ds [simp]: "same_adder s (upd_ds f s)"
  by (auto simp: upd_ds_def with_ds_def same_adder_def panics_def split: option.splits)

lemma same_adder_upd_ds_heap [simp]: "same_adder s (upd_ds f (s\<lparr>w_heap := h\<rparr>))"
  by (rule same_adder_trans[OF same_adder_heap same_adder_upd_ds])

lemma same_adder_set_slot [simp]:
  "same_adder s (set_slot_Structure p s)"
  "same_adder s (set_slot_Transform p s)"
  "same_adder s (set_slot_Meta p s)"
  "same_adder s (set_slot_Commit p s)"
  "same_adder s (set_slot_Viz p s)"
  by (simp_all add: set_slot_Structure_def set_slot_Transform_def set_slot_Meta_def
      set_slot_Commit_def set_slot_Viz_def split: prod.splits)

lemma inv_open_same: "inv_open d E k X s \<Longrightarrow> same_adder s s' \<Longrightarrow> inv_open d E k X s'"
proof -
  assume a: "inv_open d E k X s" and b: "same_adder s s'"
  have "\<forall>p. w_outcome s' \<noteq> Succeeds p"
    using a b by (cases "w_outcome s'") (auto simp: inv_open_def same_adder_def)
  moreover have "accounted s'"
    using a b by (simp add: inv_open_def same_adder_def accounted_def)
  ultimately show ?thesis using a b unfolding inv_open_def same_adder_def by simp
qed




lemma inv_open_panics [simp]: "inv_open d E k X s \<Longrightarrow> inv_open d E k X (panics s)"
  by (rule inv_open_same[OF _ same_adder_panics])

lemma inv_open_fails [simp]: "inv_open d E k X s \<Longrightarrow> inv_open d E k X (fails e s)"
  by (rule inv_open_same[OF _ same_adder_fails])























lemma pro_same: "pro d h r E ([] @ R) s \<Longrightarrow> pro d h r E R s"
  by simp

























subsection \<open>Unbound resources\<close>

lemma first_unbound_Some:
  "(key, r) \<in> set rs \<Longrightarrow> r_Path r = ''''
   \<Longrightarrow> \<exists>k r'. first_unbound rs = Some k \<and> (k, r') \<in> set rs \<and> r_Path r' = ''''"
  by (induction rs rule: first_unbound.induct) auto

text \<open>The copy of a dataset made on a new object is equal to it, and shares its sub-documents.\<close>

lemma copy_input_value:
  assumes "h_Dataset h ds = Some d" and "ds \<noteq> h_next h"
  shows "copy_input h (Some ds)
         = \<lparr>w_heap = h\<lparr>h_Dataset := (h_Dataset h)(h_next h \<mapsto> d), h_next := Suc (h_next h)\<rparr>,
            w_ds = h_next h, w_fileTasks = 0, w_pending = [], w_closed = False,
            w_path = '''', w_trace = [], w_outcome = Running\<rparr>"
  using assms
  by (cases d)
    (simp add: copy_input_def new_Dataset_def Dataset_Assign_def Dataset_Assign1_def
      merge_slot_def Dataset_zero_def)

lemma andthen_Running: "w_outcome (f s) = Running \<Longrightarrow> andthen f g s = g (f s)"
  by (simp add: andthen_def Let_def)

lemma andthen_stopped: "w_outcome (f s) \<noteq> Running \<Longrightarrow> andthen f g s = f s"
  by (simp add: andthen_def Let_def)

text \<open>
  C5. Let the dataset being written have a Transform with a resource whose path is
  empty, let the store hand out an adder and, if there is a Meta, let it encode. Then
  WriteDataset fails with the error that names a resource without a path; by then it
  has asked the store for an adder and has handed it the meta file (if there is a
  Meta) and the body file, and nothing else: no transform, commit, structure or viz
  file, no top-level document, and the adder is not closed.
\<close>

theorem C5_unbound_resource:
  assumes d: "h_Dataset h ds = Some d" and alloc: "ds \<noteq> h_next h"
    and t: "ds_Transform d = Some t" and tf: "h_Transform h t = Some tf"
    and rs: "t_Resources tf = Some rs" and unbound: "(key, r) \<in> set rs" "r_Path r = ''''"
    and adder: "NewAdder_ok cd"
    and meta: "\<forall>m. ds_Meta d = Some m \<longrightarrow>
                 (\<exists>md mdf. h_Meta h m = Some md \<and> json_Marshal_Meta cd md = Some mdf)"
  shows "let s = WriteDataset cd sched h (Some ds) dataFile pin in
           (\<exists>k r'. (k, r') \<in> set rs \<and> r_Path r' = '''' \<and>
                   w_outcome s = Fails (ErrResourceRequiresPath k))
           \<and> hd (w_trace s) = NewAdder pin True
           \<and> added_names (w_trace s)
             = (case ds_Meta d of None \<Rightarrow> [] | Some m \<Rightarrow> [PackageFileMeta]) @ [fst dataFile]
           \<and> reported_names (w_trace s) = []
           \<and> Close \<notin> set (w_trace s)"
proof -
  define s0 where "s0 = copy_input h (Some ds)"
  define h0 where "h0 = h\<lparr>h_Dataset := (h_Dataset h)(h_next h \<mapsto> d), h_next := Suc (h_next h)\<rparr>"
  have s0: "s0 = \<lparr>w_heap = h0, w_ds = h_next h, w_fileTasks = 0, w_pending = [], w_closed = False,
            w_path = '''', w_trace = [], w_outcome = Running\<rparr>"
    unfolding s0_def h0_def using d alloc by (rule copy_input_value)
  have cur: "\<And>tr p ft. h_Dataset (w_heap (s0\<lparr>w_trace := tr, w_pending := p, w_fileTasks := ft\<rparr>))
                 (w_ds (s0\<lparr>w_trace := tr, w_pending := p, w_fileTasks := ft\<rparr>)) = Some d"
    by (simp add: s0 h0_def)
  have e: "check_empty s0 = s0"
    using t by (simp add: check_empty_def with_ds_def s0 h0_def Dataset_IsEmpty_def)
  define s1 where "s1 = s0\<lparr>w_trace := [NewAdder pin True]\<rparr>"
  have n: "store_NewAdder cd pin s0 = s1"
    using adder by (simp add: store_NewAdder_def s1_def s0 Let_def)
  define metas where "metas = (case ds_Meta d of None \<Rightarrow> [] | Some m \<Rightarrow>
      [(PackageFileMeta, the (json_Marshal_Meta cd (the (h_Meta h m))))])"
  define s2 where "s2 = s1\<lparr>w_fileTasks := int (length metas), w_pending := metas,
      w_trace := NewAdder pin True # map (\<lambda>(n, b). AddFile n b) metas\<rparr>"
  have m: "write_Meta cd s1 = s2"
  proof (cases "ds_Meta d")
    case None
    then show ?thesis
      by (simp add: write_Meta_def with_ds_def s1_def s2_def metas_def s0 h0_def)
  next
    case (Some m)
    then obtain md mdf where "h_Meta h m = Some md" "json_Marshal_Meta cd md = Some mdf"
      using meta by blast
    then show ?thesis
      using Some
      by (simp add: write_Meta_def with_ds_def s1_def s2_def metas_def s0 h0_def
          adder_AddFile_def fileTasks_incr_def)
  qed
  define s3 where "s3 = s2\<lparr>w_fileTasks := int (length metas) + 1, w_pending := metas @ [dataFile],
      w_trace := NewAdder pin True # map (\<lambda>(n, b). AddFile n b) metas
                 @ [AddFile (fst dataFile) (snd dataFile)]\<rparr>"
  have b: "write_Body dataFile s2 = s3"
    by (simp add: write_Body_def s3_def s2_def s1_def s0 adder_AddFile_def fileTasks_incr_def)
  obtain k r' where k: "first_unbound rs = Some k" "(k, r') \<in> set rs" "r_Path r' = ''''"
    using first_unbound_Some[OF unbound] by blast
  have w: "write_Transform cd s3 = fails (ErrResourceRequiresPath k) s3"
    using t tf rs k(1)
    by (simp add: write_Transform_def with_ds_def s3_def s2_def s1_def s0 h0_def)
  have r1: "w_outcome s0 = Running" "w_outcome s1 = Running" "w_outcome s2 = Running"
    "w_outcome s3 = Running"
    by (simp_all add: s3_def s2_def s1_def s0)
  have before_loop: "WriteDataset_prologue cd h (Some ds) dataFile pin = fails (ErrResourceRequiresPath k) s3"
    unfolding WriteDataset_prologue_def s0_def[symmetric]
    by (simp add: andthen_Running andthen_stopped e n m b w r1 fails_def)
  have final: "WriteDataset cd sched h (Some ds) dataFile pin = fails (ErrResourceRequiresPath k) s3"
    unfolding WriteDataset_def before_loop by (simp add: fails_def)
  have names: "added_names (map (\<lambda>(n, b). AddFile n b) metas)
               = (case ds_Meta d of None \<Rightarrow> [] | Some m \<Rightarrow> [PackageFileMeta])"
    "reported_names (map (\<lambda>(n, b). AddFile n b) metas) = []"
    "Close \<notin> set (map (\<lambda>(n, b). AddFile n b) metas)"
    by (cases "ds_Meta d"; simp add: metas_def)+
  show ?thesis
    unfolding Let_def final
    using k names by (auto simp: fails_def s3_def)
qed

theorem C5_store_contacted_counterexample:
  "w_outcome (WriteDataset plain_env [] unbound_heap (Some 0) (''data.csv'', ''a,b'') False)
   = Fails (ErrResourceRequiresPath ''a'')
   \<and> w_trace (WriteDataset plain_env [] unbound_heap (Some 0) (''data.csv'', ''a,b'') False)
     = [NewAdder False True, AddFile ''data.csv'' ''a,b'']"
  by code_simp

theorem C5_unbound_resource_witness:
  "(\<exists>k. w_outcome (WriteDataset plain_env [] unbound_heap (Some 0) (''data.csv'', ''a,b'') False)
          = Fails (ErrResourceRequiresPath k))
   \<and> added_names (w_trace (WriteDataset plain_env [] unbound_heap (Some 0) (''data.csv'', ''a,b'') False))
     = [''data.csv'']
   \<and> Close \<notin> set (w_trace (WriteDataset plain_env [] unbound_heap (Some 0) (''data.csv'', ''a,b'') False))"
proof -
  let ?d = "Dataset_zero\<lparr>ds_Transform := Some 1\<rparr>"
  let ?tf = "(dataset_NewTransformRef '''')\<lparr>t_Resources := Some [(''a'', \<lparr>r_Path = ''''\<rparr>)]\<rparr>"
  have 1: "h_Dataset unbound_heap 0 = Some ?d" "0 \<noteq> h_next unbound_heap"
    "ds_Transform ?d = Some 1" "h_Transform unbound_heap 1 = Some ?tf"
    "t_Resources ?tf = Some [(''a'', \<lparr>r_Path = ''''\<rparr>)]"
    "(''a'', \<lparr>r_Path = ''''\<rparr>) \<in> set [(''a'', \<lparr>r_Path = ''''\<rparr>)]"
    "r_Path \<lparr>r_Path = ''''\<rparr> = ''''" "NewAdder_ok plain_env"
    by (simp_all add: unbound_heap_def empty_heap_def plain_env_def)
  have 2: "\<forall>m. ds_Meta ?d = Some m \<longrightarrow>
              (\<exists>md mdf. h_Meta unbound_heap m = Some md \<and> json_Marshal_Meta plain_env md = Some mdf)"
    by (simp add: Dataset_zero_def)
  show ?thesis
    using C5_unbound_resource [OF 1 2, of "[]" "(''data.csv'', ''a,b'')" False]
    by (auto simp: Let_def Dataset_zero_def)
qed

subsection \<open>What WriteDataset writes to\<close>

text \<open>
  The Dataset object of the caller is not written to: every assignment to a field of
  \<^verbatim>\<open>ds\<close> goes to the copy.
\<close>

lemma keeps_refl [simp]: "keeps r s s"
  by (simp add: keeps_def)

lemma keeps_trans: "keeps r s s' \<Longrightarrow> keeps r s' s'' \<Longrightarrow> keeps r s s''"
  by (auto simp: keeps_def)

lemma keeps_basic [simp]:
  "keeps r s (fails e s)"
  "keeps r s (panics s)"
  "keeps r s (fileTasks_incr s)"
  "keeps r s (adder_AddFile n b s)"
  "keeps r s (adder_Close cd s)"
  "keeps r s (store_NewAdder cd pin s)"
  "keeps r s (upd_ds f s)"
  "keeps r s (finish s)"
  by (auto simp: keeps_def fails_def panics_def fileTasks_incr_def adder_AddFile_def
      adder_Close_def store_NewAdder_def upd_ds_def with_ds_def finish_def Let_def
      split: option.splits)

lemma keeps_andthen:
  "(\<And>s. keeps r s (f s)) \<Longrightarrow> (\<And>s. keeps r s (g s)) \<Longrightarrow> keeps r s (andthen f g s)"
  by (auto simp: andthen_def Let_def intro: keeps_trans)

lemma keeps_add2 [simp]:
  "keeps r s (adder_AddFile n b (fileTasks_incr s))"
  "keeps r s (fileTasks_incr (adder_AddFile n b (fileTasks_incr s)))"
  by (auto simp: keeps_def fileTasks_incr_def adder_AddFile_def)

lemma keeps_write [simp]:
  "keeps r s (write_Meta cd s)"
  "keeps r s (write_Body dataFile s)"
  "keeps r s (write_Transform cd s)"
  "keeps r s (write_Commit cd s)"
  "keeps r s (write_Structure cd s)"
  "keeps r s (write_Viz cd s)"
  "keeps r s (check_empty s)"
  by (simp_all add: write_Meta_def write_Body_def write_Transform_def write_Commit_def
      write_Structure_def write_Viz_def check_empty_def with_ds_def split: option.splits)

lemma keeps_set_slot [simp]:
  "keeps r s (set_slot_Structure p s)"
  "keeps r s (set_slot_Transform p s)"
  "keeps r s (set_slot_Meta p s)"
  "keeps r s (set_slot_Commit p s)"
  "keeps r s (set_slot_Viz p s)"
  by (auto simp: keeps_def set_slot_Structure_def set_slot_Transform_def set_slot_Meta_def
      set_slot_Commit_def set_slot_Viz_def new_Structure_def new_Transform_def new_Meta_def
      new_Commit_def new_Viz_def upd_ds_def with_ds_def panics_def split: option.splits)

lemma keeps_script [simp]:
  "keeps r s (transform_script_added cd p s)"
  "keeps r s (viz_script_added cd p s)"
  by (auto simp: keeps_def transform_script_added_def viz_script_added_def with_ds_def
      panics_def fails_def adder_AddFile_def Let_def split: option.splits)

lemma keeps_dispatch [simp]: "keeps r s (dispatch cd d name p s)"
  by (simp add: dispatch_def)

lemma keeps_count_down [simp]: "keeps r s (count_down cd s)"
  by (auto simp: keeps_def count_down_def with_ds_def panics_def fails_def adder_AddFile_def
      adder_Close_def Let_def split: option.splits)

lemma keeps_on_added [simp]: "keeps r s (on_added cd d name p s)"
proof -
  have "keeps r s (s\<lparr>w_path := p\<rparr>)" by (simp add: keeps_def)
  moreover have "keeps r (s\<lparr>w_path := p\<rparr>)
                   (andthen (dispatch cd d name p) (count_down cd) (s\<lparr>w_path := p\<rparr>))"
    by (rule keeps_andthen) simp_all
  ultimately show ?thesis unfolding on_added_def by (rule keeps_trans)
qed

lemma keeps_store_step [simp]: "keeps r s (store_step cd d c s)"
proof -
  have a: "\<And>pend tr. keeps r s (s\<lparr>w_pending := pend, w_trace := tr\<rparr>)"
    by (simp add: keeps_def)
  have "\<And>pend tr name p. keeps r s (on_added cd d name p (s\<lparr>w_pending := pend, w_trace := tr\<rparr>))"
    using a keeps_on_added by (rule keeps_trans)
  then show ?thesis using a by (simp add: store_step_def Let_def split: completion.splits)
qed

lemma keeps_added_loop: "keeps r s (added_loop cd d sched s)"
proof (induction sched arbitrary: s)
  case Nil
  show ?case by simp
next
  case (Cons c cs)
  have "keeps r s (store_step cd d c (finish s))"
    using keeps_basic(8) keeps_store_step by (rule keeps_trans)
  then show ?case using Cons.IH by (auto intro: keeps_trans)
qed

lemma copy_input_keeps:
  "r \<noteq> h_next h \<Longrightarrow> w_ds (copy_input h ds) = h_next h \<and>
     h_Dataset (w_heap (copy_input h ds)) r = h_Dataset h r"
  by (auto simp: copy_input_def new_Dataset_def Dataset_Assign_def Dataset_Assign1_def
      Let_def split: option.splits prod.splits)

lemma WriteDataset_keeps_callers_Dataset:
  assumes "r \<noteq> h_next h"
  shows "h_Dataset (w_heap (WriteDataset cd sched h ds dataFile pin)) r = h_Dataset h r"
proof -
  have "keeps r (copy_input h ds) (WriteDataset_prologue cd h ds dataFile pin)"
    unfolding WriteDataset_prologue_def by (intro keeps_andthen keeps_write keeps_basic)
  moreover have "keeps r (WriteDataset_prologue cd h ds dataFile pin)
                   (WriteDataset cd sched h ds dataFile pin)"
    unfolding WriteDataset_def by (simp add: Let_def keeps_added_loop)
  ultimately have "keeps r (copy_input h ds) (WriteDataset cd sched h ds dataFile pin)"
    by (rule keeps_trans)
  then show ?thesis using copy_input_keeps[OF assms, of ds] assms by (auto simp: keeps_def)
qed

text \<open>
  C6. A dataset whose Transform carries a script, written with every addition
  completing. The copy shares the Transform with the caller's dataset, and the address
  of the script is written into that shared object: after the call the caller's
  Transform has the script path \<open>/b\<close>, where it had none.
\<close>

theorem C6_script_path_written_to_callers_transform:
  "h_Dataset script_heap 0 = Some (Dataset_zero\<lparr>ds_Transform := Some 1\<rparr>)
   \<and> h_Transform script_heap 1
     = Some ((dataset_NewTransformRef '''')\<lparr>t_Script := Some ''print(1)''\<rparr>)
   \<and> w_outcome (WriteDataset plain_env script_schedule script_heap (Some 0)
        (''data.csv'', ''a,b'') False) = Succeeds ''/d''
   \<and> h_Transform (w_heap (WriteDataset plain_env script_schedule script_heap (Some 0)
        (''data.csv'', ''a,b'') False)) 1
     = Some ((dataset_NewTransformRef '''')\<lparr>t_Script := Some ''print(1)'', t_ScriptPath := ''/b''\<rparr>)"
  by code_simp

end
